theory Spec2Isabelle
  imports Complex_Main "HOL-Library.Sublist" "HOL-Library.Option_ord"
begin

section \<open>The training loop driver of train.py\<close>

text \<open>
  A shallow embedding of \<^verbatim>\<open>train.py\<close>: \<^verbatim>\<open>reload_model\<close>, \<^verbatim>\<open>write_stats\<close>,
  \<^verbatim>\<open>load_stats\<close>, \<^verbatim>\<open>train\<close> and \<^verbatim>\<open>pytorch_train_impl\<close>.

  Conventions of the embedding.
  \<^item> Python floats are rationals (\<open>rat\<close>): the code only adds, divides, negates and
    compares them. \<^verbatim>\<open>None\<close> is \<open>None\<close> of an option type.
  \<^item> The parameters of the model (its \<^verbatim>\<open>state_dict\<close>) are an opaque snapshot, a number.
  \<^item> The output location is a value of \<open>dir_state\<close>: it does not exist, or it is a
    directory that holds or not \<^verbatim>\<open>best_model.pt\<close> and \<^verbatim>\<open>stats.yaml\<close>.
  \<^item> The model, the optimizer, the loss function and the two data loaders are external.
    What they do in one epoch is given by an \<open>epoch_env\<close>: for every batch either the
    exception it raises or the numbers the loop reads from it.
  \<^item> Every function takes the \<open>world\<close> and returns it with its result; a raised
    exception is \<open>Inl\<close> of the result. The world keeps the \<open>trace\<close> of the calls made
    to the outside: the metrics sink, the tuning client and the files written.
  \<^item> Calls to \<^verbatim>\<open>logger\<close> change nothing that is modelled; only the evaluation of their
    arguments is, where it can raise.
  \<^item> A file operation inside an existing directory succeeds, and so does
    \<^verbatim>\<open>os.makedirs\<close>; a saved model file that is present loads.
\<close>

subsection \<open>Data\<close>

type_synonym params = nat

datatype exn =
    RuntimeError string
  | ZeroDivisionError
  | UnboundLocalError
  | FileNotFoundError
  | TypeError
  | OtherError string

text \<open>The dictionary stored in \<^verbatim>\<open>stats.yaml\<close>, with its two keys.\<close>

record stats =
  best_dev_metric :: "rat option"
  epoch :: int

datatype dir_state =
    NoDir
  | Dir "params option" "stats option"

datatype event =
    LogMetric string "rat option"
  | TorchSave params
  | WriteStats stats
  | LoadStateDict params
  | Makedirs
  | ReportResults string string rat

record world =
  out_dir :: dir_state
  model :: params
  trace :: "event list"

text \<open>
  One batch of the training loader: it raises, or it gives \<^verbatim>\<open>loss.item()\<close>,
  \<^verbatim>\<open>predictions.shape[0]\<close> and the parameters after \<^verbatim>\<open>optimizer.step()\<close>.
  One batch of the dev loader: it raises, or it gives \<^verbatim>\<open>torch.sum(acc).item()\<close> and
  \<^verbatim>\<open>model_target.shape[0]\<close>.
\<close>

datatype train_batch = TrainRaises exn | TrainStep rat nat params

datatype dev_batch = DevRaises exn | DevBatch nat nat

record epoch_env =
  train_loader :: "train_batch list"
  dev_loader :: "dev_batch list"

text \<open>The local variables of the epoch loop; \<open>epoch_var = None\<close> is an unbound \<^verbatim>\<open>epoch\<close>.\<close>

record loop_vars =
  epoch_var :: "int option"
  best_var :: "rat option"
  not_improving_since :: int

subsection \<open>The checkpoint files\<close>

definition exists_saved_model :: "world \<Rightarrow> bool" where
  "exists_saved_model w = (case out_dir w of Dir (Some p) st \<Rightarrow> True | _ \<Rightarrow> False)"

definition exists_output :: "world \<Rightarrow> bool" where
  "exists_output w = (case out_dir w of NoDir \<Rightarrow> False | Dir m st \<Rightarrow> True)"

definition makedirs :: "world \<Rightarrow> world" where
  "makedirs w = w\<lparr>out_dir := Dir None None, trace := trace w @ [Makedirs]\<rparr>"

definition load_state_dict :: "world \<Rightarrow> world" where
  "load_state_dict w =
     (case out_dir w of
        Dir (Some p) st \<Rightarrow> w\<lparr>model := p, trace := trace w @ [LoadStateDict p]\<rparr>
      | _ \<Rightarrow> w)"

definition load_stats :: "world \<Rightarrow> exn + stats" where
  "load_stats w =
     (case out_dir w of
        Dir m (Some s) \<Rightarrow> Inr s
      | _ \<Rightarrow> Inl FileNotFoundError)"

definition write_stats :: "rat option \<Rightarrow> int \<Rightarrow> world \<Rightarrow> (exn + unit) \<times> world" where
  "write_stats best e w =
     (let to_store = \<lparr>best_dev_metric = best, epoch = e\<rparr> in
      case out_dir w of
        NoDir \<Rightarrow> (Inl FileNotFoundError, w)
      | Dir m st \<Rightarrow>
          (Inr (), w\<lparr>out_dir := Dir m (Some to_store), trace := trace w @ [WriteStats to_store]\<rparr>))"

definition torch_save :: "world \<Rightarrow> (exn + unit) \<times> world" where
  "torch_save w =
     (case out_dir w of
        NoDir \<Rightarrow> (Inl FileNotFoundError, w)
      | Dir m st \<Rightarrow>
          (Inr (), w\<lparr>out_dir := Dir (Some (model w)) st, trace := trace w @ [TorchSave (model w)]\<rparr>))"

definition reload_model :: "bool \<Rightarrow> world \<Rightarrow> (exn + stats option) \<times> world" where
  "reload_model start_from_scratch w =
     (if start_from_scratch \<and> exists_saved_model w then (Inr None, w)
      else if exists_saved_model w then
        (let w1 = load_state_dict w in
         case load_stats w1 of
           Inl x \<Rightarrow> (Inl x, w1)
         | Inr s \<Rightarrow> (Inr (Some s), w1))
      else if exists_output w then (Inr None, w)
      else (Inr None, makedirs w))"

subsection \<open>One epoch\<close>

definition log_metric :: "string \<Rightarrow> rat option \<Rightarrow> world \<Rightarrow> world" where
  "log_metric name v w = w\<lparr>trace := trace w @ [LogMetric name v]\<rparr>"

definition truediv :: "rat \<Rightarrow> nat \<Rightarrow> exn + rat" where
  "truediv a b = (if b = 0 then Inl ZeroDivisionError else Inr (a / of_nat b))"

text \<open>The loop over the training batches, with its two accumulators and the parameters.\<close>

fun train_batches :: "train_batch list \<Rightarrow> rat \<Rightarrow> nat \<Rightarrow> params \<Rightarrow> (exn + rat \<times> nat) \<times> params" where
  "train_batches [] running_loss examples p = (Inr (running_loss, examples), p)"
| "train_batches (TrainRaises x # bs) running_loss examples p = (Inl x, p)"
| "train_batches (TrainStep l n p' # bs) running_loss examples p =
     train_batches bs (running_loss + l) (examples + n) p'"

fun dev_batches :: "dev_batch list \<Rightarrow> nat \<Rightarrow> nat \<Rightarrow> exn + nat \<times> nat" where
  "dev_batches [] correct examples = Inr (correct, examples)"
| "dev_batches (DevRaises x # bs) correct examples = Inl x"
| "dev_batches (DevBatch c n # bs) correct examples = dev_batches bs (correct + c) (examples + n)"

text \<open>
  The training and the evaluation phase of one epoch, up to the two \<^verbatim>\<open>log_metric\<close> calls:
  the result is \<open>(running_loss, dev_metric)\<close>.
\<close>

definition train_and_eval :: "epoch_env \<Rightarrow> world \<Rightarrow> (exn + rat \<times> rat) \<times> world" where
  "train_and_eval ee w =
     (case train_batches (train_loader ee) 0 0 (model w) of
        (Inl x, p) \<Rightarrow> (Inl x, w\<lparr>model := p\<rparr>)
      | (Inr (running_loss, examples), p) \<Rightarrow>
          (let w1 = w\<lparr>model := p\<rparr> in
           case truediv running_loss examples of
             Inl x \<Rightarrow> (Inl x, w1)
           | Inr avg_loss \<Rightarrow>
               (case dev_batches (dev_loader ee) 0 0 of
                  Inl x \<Rightarrow> (Inl x, w1)
                | Inr (correct, examples') \<Rightarrow>
                    (case truediv (of_nat correct) examples' of
                       Inl x \<Rightarrow> (Inl x, w1)
                     | Inr dev_metric \<Rightarrow>
                         (Inr (running_loss, dev_metric),
                          log_metric ''loss'' (Some avg_loss)
                            (log_metric ''dev_metric'' (Some dev_metric) w1))))))"

text \<open>The improvement check: \<^verbatim>\<open>best_dev_metric is None or dev_metric > best_dev_metric\<close>.\<close>

definition improves :: "rat option \<Rightarrow> rat \<Rightarrow> bool" where
  "improves best dev_metric = (case best of None \<Rightarrow> True | Some b \<Rightarrow> dev_metric > b)"

definition improvement_check :: "rat \<Rightarrow> loop_vars \<Rightarrow> world \<Rightarrow> (exn + loop_vars) \<times> world" where
  "improvement_check dev_metric l w =
     (if improves (best_var l) dev_metric then
        (case torch_save w of
           (Inl x, w') \<Rightarrow> (Inl x, w')
         | (Inr u, w') \<Rightarrow> (Inr (l\<lparr>best_var := Some dev_metric, not_improving_since := 0\<rparr>), w'))
      else (Inr (l\<lparr>not_improving_since := not_improving_since l + 1\<rparr>), w))"

text \<open>
  The body of the epoch loop, from the training phase to \<^verbatim>\<open>write_stats\<close>. The arguments of
  the \<^verbatim>\<open>logger.info\<close> call divide by \<^verbatim>\<open>len(train_loader)\<close>.
\<close>

definition epoch_body :: "epoch_env \<Rightarrow> int \<Rightarrow> loop_vars \<Rightarrow> world \<Rightarrow> (exn + loop_vars) \<times> world" where
  "epoch_body ee e l w =
     (case train_and_eval ee w of
        (Inl x, w1) \<Rightarrow> (Inl x, w1)
      | (Inr (running_loss, dev_metric), w1) \<Rightarrow>
          (case improvement_check dev_metric l w1 of
             (Inl x, w2) \<Rightarrow> (Inl x, w2)
           | (Inr l', w2) \<Rightarrow>
               (case truediv running_loss (length (train_loader ee)) of
                  Inl x \<Rightarrow> (Inl x, w2)
                | Inr shown \<Rightarrow>
                    (case write_stats (best_var l') (e + 1) w2 of
                       (Inl x, w3) \<Rightarrow> (Inl x, w3)
                     | (Inr u, w3) \<Rightarrow> (Inr l', w3)))))"

subsection \<open>The epoch loop and the two entry points\<close>

text \<open>\<^verbatim>\<open>for epoch in range(i, max_epoch)\<close>, left by \<^verbatim>\<open>break\<close> when patience is exhausted.\<close>

function for_loop ::
  "(int \<Rightarrow> epoch_env) \<Rightarrow> int \<Rightarrow> int \<Rightarrow> int \<Rightarrow> loop_vars \<Rightarrow> world \<Rightarrow> (exn + loop_vars) \<times> world" where
  "for_loop env patience max_epoch i l w =
     (if i < max_epoch then
        (case epoch_body (env i) i (l\<lparr>epoch_var := Some i\<rparr>) w of
           (Inl x, w') \<Rightarrow> (Inl x, w')
         | (Inr l', w') \<Rightarrow>
             if not_improving_since l' \<ge> patience then (Inr l', w')
             else for_loop env patience max_epoch (i + 1) l' w')
      else (Inr l, w))"
  by pat_completeness auto
termination
  by (relation "measure (\<lambda>(env, patience, max_epoch, i, l, w). nat (max_epoch - i))") auto

text \<open>
  What follows the loop: the \<^verbatim>\<open>logger.info\<close> call reads \<^verbatim>\<open>epoch + 1\<close>, then
  \<^verbatim>\<open>log_metric("best_dev_metric", best_dev_metric)\<close> and the \<^verbatim>\<open>return\<close>.
\<close>

definition after_loop :: "(exn + loop_vars) \<times> world \<Rightarrow> (exn + rat option) \<times> world" where
  "after_loop r =
     (case r of
        (Inl x, w2) \<Rightarrow> (Inl x, w2)
      | (Inr l, w2) \<Rightarrow>
          (case epoch_var l of
             None \<Rightarrow> (Inl UnboundLocalError, w2)
           | Some e \<Rightarrow> (Inr (best_var l), log_metric ''best_dev_metric'' (best_var l) w2)))"

definition pytorch_train_impl ::
  "(int \<Rightarrow> epoch_env) \<Rightarrow> int \<Rightarrow> int \<Rightarrow> bool \<Rightarrow> bool \<Rightarrow> world \<Rightarrow> (exn + rat option) \<times> world" where
  "pytorch_train_impl env max_epoch patience use_progress_bar start_from_scratch w =
     (case reload_model start_from_scratch w of
        (Inl x, w1) \<Rightarrow> (Inl x, w1)
      | (Inr st, w1) \<Rightarrow>
          (let start_epoch = (case st of Some s \<Rightarrow> epoch s | None \<Rightarrow> 0);
               best = (case st of Some s \<Rightarrow> best_dev_metric s | None \<Rightarrow> None)
           in after_loop
                (for_loop env patience max_epoch start_epoch
                   \<lparr>epoch_var = None, best_var = best, not_improving_since = 0\<rparr> w1)))"

text \<open>\<^verbatim>\<open>report_results\<close> with the objective \<^verbatim>\<open>-best_dev_metric\<close>; negating \<^verbatim>\<open>None\<close> raises.\<close>

definition report_results :: "rat option \<Rightarrow> world \<Rightarrow> (exn + unit) \<times> world" where
  "report_results best w =
     (case best of
        None \<Rightarrow> (Inl TypeError, w)
      | Some b \<Rightarrow> (Inr (), w\<lparr>trace := trace w @ [ReportResults ''dev_metric'' ''objective'' (- b)]\<rparr>))"

definition out_of_memory :: "string \<Rightarrow> bool" where
  "out_of_memory msg = sublist ''CUDA out of memory'' msg"

definition train ::
  "bool \<Rightarrow> (int \<Rightarrow> epoch_env) \<Rightarrow> int \<Rightarrow> int \<Rightarrow> bool \<Rightarrow> bool \<Rightarrow> world \<Rightarrow> (exn + unit) \<times> world" where
  "train is_orion_on env patience max_epoch use_progress_bar start_from_scratch w =
     (case pytorch_train_impl env max_epoch patience use_progress_bar start_from_scratch w of
        (Inr best, w1) \<Rightarrow> report_results best w1
      | (Inl (RuntimeError msg), w1) \<Rightarrow>
          if is_orion_on \<and> out_of_memory msg then report_results (Some (- 999)) w1
          else (Inl (RuntimeError msg), w1)
      | (Inl x, w1) \<Rightarrow> (Inl x, w1))"

subsection \<open>Observations on a run\<close>

text \<open>
  The values of \<^verbatim>\<open>best_dev_metric\<close> written to the state record, the parameters saved, the
  values sent to the metrics sink under one name, and the objectives reported, each in the
  order of the trace.
\<close>

fun written_bests :: "event list \<Rightarrow> rat option list" where
  "written_bests [] = []"
| "written_bests (WriteStats s # evs) = best_dev_metric s # written_bests evs"
| "written_bests (ev # evs) = written_bests evs"

fun checkpoint_events :: "event list \<Rightarrow> event list" where
  "checkpoint_events [] = []"
| "checkpoint_events (WriteStats s # evs) = WriteStats s # checkpoint_events evs"
| "checkpoint_events (TorchSave p # evs) = TorchSave p # checkpoint_events evs"
| "checkpoint_events (ev # evs) = checkpoint_events evs"

fun emitted :: "string \<Rightarrow> event list \<Rightarrow> rat option list" where
  "emitted name [] = []"
| "emitted name (LogMetric n v # evs) = (if n = name then v # emitted name evs else emitted name evs)"
| "emitted name (ev # evs) = emitted name evs"

fun reported :: "event list \<Rightarrow> rat list" where
  "reported [] = []"
| "reported (ReportResults n t v # evs) = v # reported evs"
| "reported (ev # evs) = reported evs"

text \<open>
  The dev metric that the two phases of an epoch compute, when they complete. It depends on
  the batches only, not on the world the epoch starts in.
\<close>

definition dev_metric_of :: "epoch_env \<Rightarrow> rat option" where
  "dev_metric_of ee =
     (case fst (train_and_eval ee \<lparr>out_dir = NoDir, model = 0, trace = []\<rparr>) of
        Inl x \<Rightarrow> None
      | Inr (running_loss, dev_metric) \<Rightarrow> Some dev_metric)"

text \<open>
  \<open>runs_epoch env patience max_epoch start_from_scratch w0 i l w\<close>: the run of
  \<^verbatim>\<open>pytorch_train_impl\<close> started in \<open>w0\<close> enters the body of epoch \<open>i\<close> with the locals
  \<open>l\<close>, in the world \<open>w\<close>.
\<close>

inductive runs_epoch ::
  "(int \<Rightarrow> epoch_env) \<Rightarrow> int \<Rightarrow> int \<Rightarrow> bool \<Rightarrow> world \<Rightarrow> int \<Rightarrow> loop_vars \<Rightarrow> world \<Rightarrow> bool"
  for env patience max_epoch start_from_scratch w0 where
  first:
    "reload_model start_from_scratch w0 = (Inr st, w1) \<Longrightarrow>
     i = (case st of Some s \<Rightarrow> epoch s | None \<Rightarrow> 0) \<Longrightarrow>
     l = \<lparr>epoch_var = None,
          best_var = (case st of Some s \<Rightarrow> best_dev_metric s | None \<Rightarrow> None),
          not_improving_since = 0\<rparr> \<Longrightarrow>
     i < max_epoch \<Longrightarrow>
     runs_epoch env patience max_epoch start_from_scratch w0 i l w1"
| following:
    "runs_epoch env patience max_epoch start_from_scratch w0 i l w \<Longrightarrow>
     epoch_body (env i) i (l\<lparr>epoch_var := Some i\<rparr>) w = (Inr l', w') \<Longrightarrow>
     \<not> not_improving_since l' \<ge> patience \<Longrightarrow>
     i + 1 < max_epoch \<Longrightarrow>
     runs_epoch env patience max_epoch start_from_scratch w0 (i + 1) l' w'"

text \<open>
  Restarts over one output location with \<^verbatim>\<open>start_from_scratch = False\<close>: each run starts in
  the world the run before left, whether it returned or raised.
\<close>

fun resumed_runs :: "((int \<Rightarrow> epoch_env) \<times> int \<times> int \<times> bool) list \<Rightarrow> world \<Rightarrow> world" where
  "resumed_runs [] w = w"
| "resumed_runs ((env, max_epoch, patience, use_progress_bar) # rs) w =
     resumed_runs rs (snd (pytorch_train_impl env max_epoch patience use_progress_bar False w))"

text \<open>
  The history of an output location is in order when the values written so far do not
  decrease and, once there is one, the saved model file exists and the state record on
  disk holds the last value written.
\<close>

definition history_ok :: "world \<Rightarrow> bool" where
  "history_ok w \<longleftrightarrow>
     sorted (written_bests (trace w)) \<and>
     (written_bests (trace w) \<noteq> [] \<longrightarrow>
        exists_saved_model w \<and>
        (\<exists>s. load_stats w = Inr s \<and> best_dev_metric s = last (written_bests (trace w))))"

subsection \<open>Concrete inputs\<close>

definition fresh_world :: world where
  "fresh_world = \<lparr>out_dir = NoDir, model = 0, trace = []\<rparr>"

text \<open>An epoch of one training batch and one dev batch with \<open>c\<close> correct out of \<open>n\<close>.\<close>

definition epoch_with :: "nat \<Rightarrow> nat \<Rightarrow> epoch_env" where
  "epoch_with c n = \<lparr>train_loader = [TrainStep 1 4 (c + n)], dev_loader = [DevBatch c n]\<rparr>"

definition env_improving :: "int \<Rightarrow> epoch_env" where
  "env_improving e = (if e = 0 then epoch_with 1 2 else if e = 1 then epoch_with 3 5 else epoch_with 11 20)"

definition env_plateau :: "int \<Rightarrow> epoch_env" where
  "env_plateau e = (if e = 0 then epoch_with 7 10 else if e = 1 then epoch_with 7 10 else epoch_with 9 10)"

definition env_high :: "int \<Rightarrow> epoch_env" where
  "env_high e = epoch_with 9 10"

definition env_low :: "int \<Rightarrow> epoch_env" where
  "env_low e = epoch_with 1 2"

definition env_oom :: "int \<Rightarrow> epoch_env" where
  "env_oom e =
     \<lparr>train_loader = [TrainRaises (RuntimeError ''CUDA out of memory. Tried to allocate 2.00 GiB'')],
      dev_loader = [DevBatch 1 2]\<rparr>"

definition env_broken :: "int \<Rightarrow> epoch_env" where
  "env_broken e = \<lparr>train_loader = [TrainRaises (OtherError ''worker died'')], dev_loader = [DevBatch 1 2]\<rparr>"


section \<open>Properties\<close>

declare for_loop.simps [simp del]

subsection \<open>The phases of an epoch\<close>

lemma train_and_eval_out_dir: "train_and_eval ee w = (r, w1) \<Longrightarrow> out_dir w1 = out_dir w"
  by (auto simp: train_and_eval_def log_metric_def Let_def split: prod.splits sum.splits)

lemma train_and_eval_trace_Inl: "train_and_eval ee w = (Inl x, w1) \<Longrightarrow> trace w1 = trace w"
  by (auto simp: train_and_eval_def log_metric_def Let_def split: prod.splits sum.splits)

lemma train_and_eval_trace_Inr:
  "train_and_eval ee w = (Inr (rl, dm), w1) \<Longrightarrow>
   \<exists>avg. trace w1 = trace w @ [LogMetric ''dev_metric'' (Some dm), LogMetric ''loss'' (Some avg)]"
  by (auto simp: train_and_eval_def log_metric_def Let_def split: prod.splits sum.splits)

lemma train_and_eval_nonempty: "train_and_eval ee w = (Inr r, w1) \<Longrightarrow> train_loader ee \<noteq> []"
  by (auto simp: train_and_eval_def truediv_def Let_def split: prod.splits sum.splits if_splits)

lemma epoch_body_Inl_dir:
  "epoch_body ee e l w = (Inl x, w') \<Longrightarrow> out_dir w \<noteq> NoDir \<Longrightarrow>
   train_and_eval ee w = (Inl x, w')"
  apply (auto simp: epoch_body_def improvement_check_def torch_save_def write_stats_def Let_def truediv_def
      split: prod.splits sum.splits if_splits dir_state.splits dest: train_and_eval_out_dir train_and_eval_nonempty)
  done

lemma epoch_body_Inr_pre:
  assumes "epoch_body ee e l w = (Inr l', w')"
  shows "\<exists>rl dm w1 m st. train_and_eval ee w = (Inr (rl, dm), w1) \<and> out_dir w = Dir m st"
proof -
  obtain r w1 where te: "train_and_eval ee w = (r, w1)" by (cases "train_and_eval ee w")
  obtain rl dm where r: "r = Inr (rl, dm)"
    using assms te by (cases r) (auto simp: epoch_body_def)
  have "out_dir w1 \<noteq> NoDir"
    using assms te r
    by (auto simp: epoch_body_def improvement_check_def torch_save_def write_stats_def Let_def
        split: prod.splits sum.splits if_splits dir_state.splits)
  then have "out_dir w \<noteq> NoDir" using train_and_eval_out_dir[OF te] by simp
  then obtain m st where "out_dir w = Dir m st" by (cases "out_dir w") auto
  with te r show ?thesis by blast
qed

lemma epoch_body_ok:
  assumes "train_and_eval ee w = (Inr (rl, dm), w1)" and "out_dir w = Dir m st"
  shows "epoch_body ee e l w =
    (let l' = (if improves (best_var l) dm then l\<lparr>best_var := Some dm, not_improving_since := 0\<rparr>
           else l\<lparr>not_improving_since := not_improving_since l + 1\<rparr>) in
     (Inr l', w1\<lparr>out_dir := Dir (if improves (best_var l) dm then Some (model w1) else m)
                          (Some \<lparr>best_dev_metric = best_var l', epoch = e + 1\<rparr>),
             trace := trace w1 @ (if improves (best_var l) dm then [TorchSave (model w1)] else [])
                        @ [WriteStats \<lparr>best_dev_metric = best_var l', epoch = e + 1\<rparr>]\<rparr>))"
  using assms train_and_eval_out_dir[OF assms(1)] train_and_eval_nonempty[OF assms(1)]
  apply (auto simp: epoch_body_def improvement_check_def torch_save_def write_stats_def Let_def truediv_def
      split: prod.splits sum.splits if_splits dir_state.splits)
  done


lemma written_bests_append: "written_bests (xs @ ys) = written_bests xs @ written_bests ys"
  by (induction xs rule: written_bests.induct) simp_all

lemma checkpoint_events_append: "checkpoint_events (xs @ ys) = checkpoint_events xs @ checkpoint_events ys"
  by (induction xs rule: checkpoint_events.induct) simp_all

lemma emitted_append: "emitted name (xs @ ys) = emitted name xs @ emitted name ys"
  by (induction name xs rule: emitted.induct) simp_all

lemma reported_append: "reported (xs @ ys) = reported xs @ reported ys"
  by (induction xs rule: reported.induct) simp_all

lemma train_batches_fst: "fst (train_batches bs rl ex p) = fst (train_batches bs rl ex q)"
  by (induction bs rl ex p arbitrary: q rule: train_batches.induct) simp_all

lemma train_and_eval_fst: "fst (train_and_eval ee w) = fst (train_and_eval ee v)"
proof -
  have "fst (train_batches (train_loader ee) 0 0 (model w)) = fst (train_batches (train_loader ee) 0 0 (model v))"
    by (rule train_batches_fst)
  then show ?thesis
    by (auto simp: train_and_eval_def Let_def split: prod.splits sum.splits)
qed

lemma dev_metric_of_Some:
  assumes "dev_metric_of ee = Some dm"
  shows "\<exists>rl w1. train_and_eval ee w = (Inr (rl, dm), w1)"
proof -
  have "fst (train_and_eval ee w) = fst (train_and_eval ee \<lparr>out_dir = NoDir, model = 0, trace = []\<rparr>)"
    by (rule train_and_eval_fst)
  with assms show ?thesis
    by (cases "train_and_eval ee w") (auto simp: dev_metric_of_def split: sum.splits)
qed

lemma dev_metric_of_eq:
  assumes "train_and_eval ee w = (Inr (rl, dm), w1)"
  shows "dev_metric_of ee = Some dm"
proof -
  have "fst (train_and_eval ee \<lparr>out_dir = NoDir, model = 0, trace = []\<rparr>) = fst (train_and_eval ee w)"
    by (rule train_and_eval_fst)
  with assms show ?thesis by (simp add: dev_metric_of_def)
qed

lemma dev_metric_of_epoch_with: "0 < n \<Longrightarrow> dev_metric_of (epoch_with c n) = Some (of_nat c / of_nat n)"
  by (simp add: dev_metric_of_def epoch_with_def train_and_eval_def truediv_def log_metric_def)

subsection \<open>Initialisation\<close>

lemma reload_model_scratch:
  "exists_saved_model w \<Longrightarrow> reload_model True w = (Inr None, w)"
  by (simp add: reload_model_def)

text \<open>
  Claim C9. A call of \<^verbatim>\<open>reload_model\<close> with \<^verbatim>\<open>start_from_scratch = True\<close> while the saved model
  file exists returns \<^verbatim>\<open>None\<close> and leaves the whole world as it was: no file is deleted or
  modified and nothing is loaded into the model. The run then enters its loop at epoch 0 with
  \<^verbatim>\<open>best_dev_metric = None\<close>.
\<close>
theorem fresh_start_leaves_artifacts:
  "exists_saved_model w \<Longrightarrow>
   reload_model True w = (Inr None, w) \<and>
   pytorch_train_impl env max_epoch patience use_progress_bar True w =
     after_loop (for_loop env patience max_epoch 0
       \<lparr>epoch_var = None, best_var = None, not_improving_since = 0\<rparr> w)"
  by (simp add: pytorch_train_impl_def reload_model_def)

theorem fresh_start_leaves_artifacts_witness:
  "exists_saved_model \<lparr>out_dir = Dir (Some 7) (Some \<lparr>best_dev_metric = Some (9 / 10), epoch = 4\<rparr>), model = 0, trace = []\<rparr> \<and>
   reload_model True \<lparr>out_dir = Dir (Some 7) (Some \<lparr>best_dev_metric = Some (9 / 10), epoch = 4\<rparr>), model = 0, trace = []\<rparr>
     = (Inr None, \<lparr>out_dir = Dir (Some 7) (Some \<lparr>best_dev_metric = Some (9 / 10), epoch = 4\<rparr>), model = 0, trace = []\<rparr>)"
proof -
  have h: "exists_saved_model \<lparr>out_dir = Dir (Some 7) (Some \<lparr>best_dev_metric = Some (9 / 10), epoch = 4\<rparr>), model = 0, trace = []\<rparr>"
    by (simp add: exists_saved_model_def)
  show ?thesis using h fresh_start_leaves_artifacts [OF h] by simp
qed


lemma for_loop_not_entered: "max_epoch \<le> i \<Longrightarrow> for_loop env patience max_epoch i l w = (Inr l, w)"
  by (simp add: for_loop.simps)

lemma reload_model_resume:
  "out_dir w = Dir (Some p) (Some s) \<Longrightarrow>
   reload_model False w = (Inr (Some s), w\<lparr>model := p, trace := trace w @ [LoadStateDict p]\<rparr>)"
  by (simp add: reload_model_def exists_saved_model_def load_state_dict_def load_stats_def)

text \<open>
  Claim C10. A resumed run whose state record has \<^verbatim>\<open>epoch >= max_epoch\<close> never executes the
  loop body; the statement after the loop reads the unbound \<^verbatim>\<open>epoch\<close> and the run fails,
  in \<^verbatim>\<open>pytorch_train_impl\<close> and in \<^verbatim>\<open>train\<close>, instead of returning the stored
  \<^verbatim>\<open>best_dev_metric\<close>: the only effect is the loading of the saved parameters.
\<close>
theorem resume_past_max_epoch_fails:
  "out_dir w = Dir (Some p) (Some s) \<Longrightarrow> max_epoch \<le> epoch s \<Longrightarrow>
   pytorch_train_impl env max_epoch patience use_progress_bar False w =
     (Inl UnboundLocalError, w\<lparr>model := p, trace := trace w @ [LoadStateDict p]\<rparr>) \<and>
   train is_orion_on env patience max_epoch use_progress_bar False w =
     (Inl UnboundLocalError, w\<lparr>model := p, trace := trace w @ [LoadStateDict p]\<rparr>)"
  by (simp add: reload_model_resume pytorch_train_impl_def train_def for_loop_not_entered after_loop_def)

theorem resume_past_max_epoch_fails_witness:
  "out_dir \<lparr>out_dir = Dir (Some 7) (Some \<lparr>best_dev_metric = Some (9 / 10), epoch = 3\<rparr>), model = 0, trace = []\<rparr>
     = Dir (Some 7) (Some \<lparr>best_dev_metric = Some (9 / 10), epoch = 3\<rparr>) \<and>
   (3::int) \<le> epoch \<lparr>best_dev_metric = Some (9 / 10), epoch = 3\<rparr> \<and>
   train True env_high 5 3 True False
      \<lparr>out_dir = Dir (Some 7) (Some \<lparr>best_dev_metric = Some (9 / 10), epoch = 3\<rparr>), model = 0, trace = []\<rparr> =
     (Inl UnboundLocalError,
      \<lparr>out_dir = Dir (Some 7) (Some \<lparr>best_dev_metric = Some (9 / 10), epoch = 3\<rparr>), model = 7, trace = [LoadStateDict 7]\<rparr>)"
  using resume_past_max_epoch_fails
    [of "\<lparr>out_dir = Dir (Some 7) (Some \<lparr>best_dev_metric = Some (9 / 10), epoch = 3\<rparr>), model = 0, trace = []\<rparr>"
        7 "\<lparr>best_dev_metric = Some (9 / 10), epoch = 3\<rparr>" 3 env_high 5 True True]
  by simp

subsection \<open>The epoch loop\<close>

lemma for_loop_rule:
  assumes inv: "P i l w"
    and exit: "\<And>i l w. P i l w \<Longrightarrow> max_epoch \<le> i \<Longrightarrow> Q (Inr l) w"
    and raise: "\<And>i l w x w'. P i l w \<Longrightarrow> i < max_epoch \<Longrightarrow>
        epoch_body (env i) i (l\<lparr>epoch_var := Some i\<rparr>) w = (Inl x, w') \<Longrightarrow> Q (Inl x) w'"
    and stop: "\<And>i l w l' w'. P i l w \<Longrightarrow> i < max_epoch \<Longrightarrow>
        epoch_body (env i) i (l\<lparr>epoch_var := Some i\<rparr>) w = (Inr l', w') \<Longrightarrow>
        patience \<le> not_improving_since l' \<Longrightarrow> Q (Inr l') w'"
    and continue: "\<And>i l w l' w'. P i l w \<Longrightarrow> i < max_epoch \<Longrightarrow>
        epoch_body (env i) i (l\<lparr>epoch_var := Some i\<rparr>) w = (Inr l', w') \<Longrightarrow>
        \<not> patience \<le> not_improving_since l' \<Longrightarrow> P (i + 1) l' w'"
  shows "Q (fst (for_loop env patience max_epoch i l w)) (snd (for_loop env patience max_epoch i l w))"
  using inv
proof (induction "nat (max_epoch - i)" arbitrary: i l w)
  case 0
  then have "max_epoch \<le> i" by simp
  from exit [OF "0.prems" this] this show ?case by (simp add: for_loop.simps)
next
  case (Suc n)
  then have lt: "i < max_epoch" by linarith
  obtain r w' where eb: "epoch_body (env i) i (l\<lparr>epoch_var := Some i\<rparr>) w = (r, w')"
    by (cases "epoch_body (env i) i (l\<lparr>epoch_var := Some i\<rparr>) w")
  show ?case
  proof (cases r)
    case (Inl x)
    then show ?thesis
      using raise [OF Suc.prems lt] eb lt by (simp add: for_loop.simps [of env patience max_epoch i])
  next
    case (Inr l')
    show ?thesis
    proof (cases "patience \<le> not_improving_since l'")
      case True
      then show ?thesis
        using stop [OF Suc.prems lt] lt eb Inr
        by (simp add: for_loop.simps [of env patience max_epoch i])
    next
      case False
      have p: "P (i + 1) l' w'"
        using continue [OF Suc.prems lt] eb Inr False by blast
      have "n = nat (max_epoch - (i + 1))" using Suc.hyps(2) by linarith
      from Suc.hyps(1) [OF this p] show ?thesis
        using lt eb Inr False
        by (simp add: for_loop.simps [of env patience max_epoch i])
    qed
  qed
qed


lemma epoch_body_quiet:
  assumes "epoch_body ee e l w = (r, w')"
  shows "reported (trace w') = reported (trace w) \<and>
         emitted ''best_dev_metric'' (trace w') = emitted ''best_dev_metric'' (trace w)"
  using assms
  by (auto simp: epoch_body_def train_and_eval_def improvement_check_def torch_save_def
      write_stats_def log_metric_def Let_def reported_append emitted_append
      split: prod.splits sum.splits if_splits dir_state.splits)

lemma for_loop_quiet:
  "reported (trace (snd (for_loop env patience max_epoch i l w))) = reported (trace w) \<and>
   emitted ''best_dev_metric'' (trace (snd (for_loop env patience max_epoch i l w))) =
     emitted ''best_dev_metric'' (trace w)"
  by (rule for_loop_rule [where P = "\<lambda>i l v. reported (trace v) = reported (trace w) \<and>
          emitted ''best_dev_metric'' (trace v) = emitted ''best_dev_metric'' (trace w)"
        and Q = "\<lambda>r v. reported (trace v) = reported (trace w) \<and>
          emitted ''best_dev_metric'' (trace v) = emitted ''best_dev_metric'' (trace w)"])
     (auto dest: epoch_body_quiet)

lemma reload_model_quiet:
  assumes "reload_model start_from_scratch w = (r, w1)"
  shows "reported (trace w1) = reported (trace w) \<and>
         emitted name (trace w1) = emitted name (trace w) \<and>
         written_bests (trace w1) = written_bests (trace w)"
  using assms
  by (auto simp: reload_model_def load_state_dict_def makedirs_def Let_def
      reported_append emitted_append written_bests_append
      split: if_splits sum.splits dir_state.splits option.splits)

lemma pytorch_train_impl_Inr:
  assumes "pytorch_train_impl env max_epoch patience use_progress_bar start_from_scratch w = (Inr b, w')"
  shows "reported (trace w') = reported (trace w) \<and>
         emitted ''best_dev_metric'' (trace w') = emitted ''best_dev_metric'' (trace w) @ [b] \<and>
         last (trace w') = LogMetric ''best_dev_metric'' b"
proof -
  obtain st w1 where rl: "reload_model start_from_scratch w = (Inr st, w1)"
    using assms by (auto simp: pytorch_train_impl_def split: prod.splits sum.splits)
  define i where "i = (case st of Some s \<Rightarrow> epoch s | None \<Rightarrow> 0)"
  define l0 where "l0 = \<lparr>epoch_var = None,
     best_var = (case st of Some s \<Rightarrow> best_dev_metric s | None \<Rightarrow> None), not_improving_since = 0\<rparr>"
  obtain r w2 where fl: "for_loop env patience max_epoch i l0 w1 = (r, w2)"
    by (cases "for_loop env patience max_epoch i l0 w1")
  have al: "after_loop (r, w2) = (Inr b, w')"
    using assms rl fl by (simp add: pytorch_train_impl_def i_def l0_def)
  then have w': "w' = log_metric ''best_dev_metric'' b w2"
    by (auto simp: after_loop_def split: sum.splits option.splits)
  have "reported (trace w2) = reported (trace w1) \<and>
        emitted ''best_dev_metric'' (trace w2) = emitted ''best_dev_metric'' (trace w1)"
    using for_loop_quiet [of env patience max_epoch i l0 w1] fl by simp
  then show ?thesis
    using reload_model_quiet [OF rl, of "''best_dev_metric''"] w'
    by (simp add: log_metric_def reported_append emitted_append)
qed

lemma pytorch_train_impl_Inl:
  assumes "pytorch_train_impl env max_epoch patience use_progress_bar start_from_scratch w = (Inl x, w')"
  shows "reported (trace w') = reported (trace w) \<and>
         emitted ''best_dev_metric'' (trace w') = emitted ''best_dev_metric'' (trace w)"
proof -
  obtain r0 w1 where rl: "reload_model start_from_scratch w = (r0, w1)"
    by (cases "reload_model start_from_scratch w")
  show ?thesis
  proof (cases r0)
    case (Inl y)
    then have "w' = w1" using assms rl by (simp add: pytorch_train_impl_def)
    then show ?thesis using reload_model_quiet [OF rl, of "''best_dev_metric''"] by simp
  next
    case (Inr st)
    define i where "i = (case st of Some s \<Rightarrow> epoch s | None \<Rightarrow> 0)"
    define l0 where "l0 = \<lparr>epoch_var = None,
       best_var = (case st of Some s \<Rightarrow> best_dev_metric s | None \<Rightarrow> None), not_improving_since = 0\<rparr>"
    obtain r w2 where fl: "for_loop env patience max_epoch i l0 w1 = (r, w2)"
      by (cases "for_loop env patience max_epoch i l0 w1")
    have al: "after_loop (r, w2) = (Inl x, w')"
      using assms rl Inr fl by (simp add: pytorch_train_impl_def i_def l0_def)
    then have w': "w' = w2"
      by (auto simp: after_loop_def split: sum.splits option.splits)
    have "reported (trace w2) = reported (trace w1) \<and>
          emitted ''best_dev_metric'' (trace w2) = emitted ''best_dev_metric'' (trace w1)"
      using for_loop_quiet [of env patience max_epoch i l0 w1] fl by simp
    then show ?thesis
      using reload_model_quiet [OF rl, of "''best_dev_metric''"] w' by simp
  qed
qed

subsection \<open>Final reporting\<close>

lemmas run_eval =
  train_def report_results_def pytorch_train_impl_def after_loop_def for_loop.simps epoch_body_def
  train_and_eval_def improvement_check_def improves_def truediv_def log_metric_def
  reload_model_def exists_saved_model_def exists_output_def makedirs_def load_state_dict_def
  load_stats_def write_stats_def torch_save_def fresh_world_def epoch_with_def Let_def

lemma out_of_memory_example: "out_of_memory ''CUDA out of memory. Tried to allocate 2.00 GiB''"
  by (simp add: out_of_memory_def sublist_code(3))

lemma run_high:
  "train False env_high 1 1 True False fresh_world =
   (Inr (), \<lparr>out_dir = Dir (Some 19) (Some \<lparr>best_dev_metric = Some (9 / 10), epoch = 1\<rparr>),
     model = 19,
     trace =
       [Makedirs, LogMetric ''dev_metric'' (Some (9 / 10)),
        LogMetric ''loss'' (Some (1 / 4)), TorchSave 19,
        WriteStats \<lparr>best_dev_metric = Some (9 / 10), epoch = 1\<rparr>,
        LogMetric ''best_dev_metric'' (Some (9 / 10)),
        ReportResults ''dev_metric'' ''objective'' (- (9 / 10))]\<rparr>)"
  by (simp add: run_eval env_high_def)

lemma run_oom:
  "pytorch_train_impl env_oom 3 1 True False fresh_world =
   (Inl (RuntimeError ''CUDA out of memory. Tried to allocate 2.00 GiB''),
    \<lparr>out_dir = Dir None None, model = 0, trace = [Makedirs]\<rparr>)"
  by (simp add: run_eval env_oom_def)

lemma run_broken:
  "pytorch_train_impl env_broken 3 1 True False fresh_world =
   (Inl (OtherError ''worker died''), \<lparr>out_dir = Dir None None, model = 0, trace = [Makedirs]\<rparr>)"
  by (simp add: run_eval env_broken_def)

text \<open>
  Claim C5. Whenever \<^verbatim>\<open>train\<close> reaches \<^verbatim>\<open>report_results\<close> and returns, exactly one objective
  is reported, and its value is \<open>- 1\<close> times the final \<^verbatim>\<open>best_dev_metric\<close> of the run: the value
  returned by \<^verbatim>\<open>pytorch_train_impl\<close>, or the sentinel \<open>- 999\<close> assigned by the handler.
\<close>
theorem objective_is_negated_best:
  assumes "train is_orion_on env patience max_epoch use_progress_bar start_from_scratch w = (Inr u, w')"
  shows "\<exists>b w1.
     (pytorch_train_impl env max_epoch patience use_progress_bar start_from_scratch w = (Inr (Some b), w1) \<or>
      (\<exists>msg. pytorch_train_impl env max_epoch patience use_progress_bar start_from_scratch w =
                (Inl (RuntimeError msg), w1) \<and> is_orion_on \<and> out_of_memory msg \<and> b = - 999)) \<and>
     trace w' = trace w1 @ [ReportResults ''dev_metric'' ''objective'' (- 1 * b)] \<and>
     reported (trace w') = reported (trace w) @ [- 1 * b]"
proof -
  obtain r w1 where p: "pytorch_train_impl env max_epoch patience use_progress_bar start_from_scratch w = (r, w1)"
    by (cases "pytorch_train_impl env max_epoch patience use_progress_bar start_from_scratch w")
  show ?thesis
  proof (cases r)
    case (Inr best)
    then have rr: "report_results best w1 = (Inr u, w')" using assms p by (simp add: train_def)
    then obtain b where b: "best = Some b" by (cases best) (auto simp: report_results_def)
    have "trace w' = trace w1 @ [ReportResults ''dev_metric'' ''objective'' (- 1 * b)]"
      using rr b by (auto simp: report_results_def)
    moreover have "reported (trace w1) = reported (trace w)"
      using pytorch_train_impl_Inr p Inr by blast
    ultimately show ?thesis using p Inr b by (auto simp: reported_append)
  next
    case (Inl x)
    then obtain msg where x: "x = RuntimeError msg" and on: "is_orion_on" "out_of_memory msg"
      using assms p by (cases x) (auto simp: train_def split: if_splits)
    then have "report_results (Some (- 999)) w1 = (Inr u, w')"
      using assms p Inl by (simp add: train_def)
    then have "trace w' = trace w1 @ [ReportResults ''dev_metric'' ''objective'' (- 1 * (- 999))]"
      by (auto simp: report_results_def)
    moreover have "reported (trace w1) = reported (trace w)"
      using pytorch_train_impl_Inl p Inl by blast
    ultimately show ?thesis using p Inl x on by (auto simp: reported_append)
  qed
qed

theorem objective_is_negated_best_witness:
  "train False env_high 1 1 True False fresh_world =
   (Inr (), \<lparr>out_dir = Dir (Some 19) (Some \<lparr>best_dev_metric = Some (9 / 10), epoch = 1\<rparr>),
     model = 19,
     trace =
       [Makedirs, LogMetric ''dev_metric'' (Some (9 / 10)),
        LogMetric ''loss'' (Some (1 / 4)), TorchSave 19,
        WriteStats \<lparr>best_dev_metric = Some (9 / 10), epoch = 1\<rparr>,
        LogMetric ''best_dev_metric'' (Some (9 / 10)),
        ReportResults ''dev_metric'' ''objective'' (- (9 / 10))]\<rparr>) \<and>
   (\<exists>b. reported [Makedirs, LogMetric ''dev_metric'' (Some (9 / 10)),
        LogMetric ''loss'' (Some (1 / 4)), TorchSave 19,
        WriteStats \<lparr>best_dev_metric = Some (9 / 10), epoch = 1\<rparr>,
        LogMetric ''best_dev_metric'' (Some (9 / 10)),
        ReportResults ''dev_metric'' ''objective'' (- (9 / 10))] = reported (trace fresh_world) @ [- 1 * b])"
  using objective_is_negated_best [OF run_high] run_high by auto

text \<open>
  Claim C6. When \<^verbatim>\<open>pytorch_train_impl\<close> raises, \<^verbatim>\<open>train\<close> recovers exactly when the tuning
  client is active and the exception is a \<^verbatim>\<open>RuntimeError\<close> whose message contains
  \<^verbatim>\<open>CUDA out of memory\<close>: then \<^verbatim>\<open>best_dev_metric\<close> becomes \<open>- 999\<close> and the objective
  \<open>999\<close> is reported. In every other case the same exception propagates and nothing is
  reported.
\<close>
theorem out_of_memory_recovered_only_when_tuning:
  assumes "pytorch_train_impl env max_epoch patience use_progress_bar start_from_scratch w = (Inl x, w1)"
  shows "train is_orion_on env patience max_epoch use_progress_bar start_from_scratch w =
     (if is_orion_on \<and> (\<exists>msg. x = RuntimeError msg \<and> out_of_memory msg)
      then (Inr (), w1\<lparr>trace := trace w1 @ [ReportResults ''dev_metric'' ''objective'' 999]\<rparr>)
      else (Inl x, w1))"
  using assms by (cases x) (auto simp: train_def report_results_def)

theorem out_of_memory_recovered_only_when_tuning_witness:
  "train True env_oom 1 3 True False fresh_world =
     (Inr (), \<lparr>out_dir = Dir None None, model = 0,
               trace = [Makedirs, ReportResults ''dev_metric'' ''objective'' 999]\<rparr>) \<and>
   train False env_oom 1 3 True False fresh_world =
     (Inl (RuntimeError ''CUDA out of memory. Tried to allocate 2.00 GiB''),
      \<lparr>out_dir = Dir None None, model = 0, trace = [Makedirs]\<rparr>) \<and>
   train True env_broken 1 3 True False fresh_world =
     (Inl (OtherError ''worker died''), \<lparr>out_dir = Dir None None, model = 0, trace = [Makedirs]\<rparr>)"
  using out_of_memory_recovered_only_when_tuning [OF run_oom, of True]
    out_of_memory_recovered_only_when_tuning [OF run_oom, of False]
    out_of_memory_recovered_only_when_tuning [OF run_broken, of True]
    out_of_memory_example
  by simp

lemma epoch_body_best_bound:
  assumes "epoch_body ee e l w = (Inr l', w')"
  shows "best_var l' \<noteq> None"
proof -
  obtain rl dm w1 m st where te: "train_and_eval ee w = (Inr (rl, dm), w1)" and d: "out_dir w = Dir m st"
    using epoch_body_Inr_pre [OF assms] by blast
  show ?thesis
    using assms epoch_body_ok [OF te d, of e l]
    by (auto simp: Let_def improves_def split: if_splits option.splits)
qed

lemma for_loop_best_bound:
  assumes "for_loop env patience max_epoch i l w = (Inr l', w')" and "epoch_var l' \<noteq> None"
    and "epoch_var l = None"
  shows "best_var l' \<noteq> None"
proof -
  have "case fst (for_loop env patience max_epoch i l w) of Inl x \<Rightarrow> True
        | Inr l' \<Rightarrow> epoch_var l' \<noteq> None \<longrightarrow> best_var l' \<noteq> None"
    by (rule for_loop_rule [where P = "\<lambda>i l w. epoch_var l \<noteq> None \<longrightarrow> best_var l \<noteq> None"
          and Q = "\<lambda>r w. case r of Inl x \<Rightarrow> True | Inr l' \<Rightarrow> epoch_var l' \<noteq> None \<longrightarrow> best_var l' \<noteq> None"])
       (use assms(3) in \<open>auto dest: epoch_body_best_bound\<close>)
  then show ?thesis using assms by simp
qed

lemma run_oom_train:
  "train True env_oom 1 3 True False fresh_world =
     (Inr (), \<lparr>out_dir = Dir None None, model = 0,
               trace = [Makedirs, ReportResults ''dev_metric'' ''objective'' 999]\<rparr>)"
  by (simp add: run_eval env_oom_def out_of_memory_example)

text \<open>
  Claim C7, as stated, fails on the out-of-memory path: with the tuning client active the
  run ends by reporting the objective \<open>999\<close>, and nothing was sent to the metrics sink
  under the name \<^verbatim>\<open>best_dev_metric\<close>.
\<close>
theorem best_metric_emission_counterexample:
  "fst (train True env_oom 1 3 True False fresh_world) = Inr () \<and>
   reported (trace (snd (train True env_oom 1 3 True False fresh_world))) = [999] \<and>
   emitted ''best_dev_metric'' (trace (snd (train True env_oom 1 3 True False fresh_world))) = []"
  by (simp add: run_oom_train)

text \<open>
  Claim C7, amended. Every run in which \<^verbatim>\<open>pytorch_train_impl\<close> returns (its loop left by
  the bound on the epochs or by exhausted patience) has emitted the \<^verbatim>\<open>best_dev_metric\<close> it
  returns, which is not \<^verbatim>\<open>None\<close>, as its last call, once, under the name
  \<^verbatim>\<open>best_dev_metric\<close>. When it raises, \<^verbatim>\<open>train\<close> emits nothing under that name, whether it
  substitutes the sentinel or lets the exception through.
\<close>

theorem best_metric_emitted_on_return:
  "(pytorch_train_impl env max_epoch patience use_progress_bar start_from_scratch w = (Inr b, w') \<longrightarrow>
      b \<noteq> None \<and>
      last (trace w') = LogMetric ''best_dev_metric'' b \<and>
      emitted ''best_dev_metric'' (trace w') = emitted ''best_dev_metric'' (trace w) @ [b]) \<and>
   (pytorch_train_impl env max_epoch patience use_progress_bar start_from_scratch w = (Inl x, w') \<longrightarrow>
      emitted ''best_dev_metric''
        (trace (snd (train is_orion_on env patience max_epoch use_progress_bar start_from_scratch w))) =
      emitted ''best_dev_metric'' (trace w))"
proof (intro conjI impI)
  assume p: "pytorch_train_impl env max_epoch patience use_progress_bar start_from_scratch w = (Inr b, w')"
  then show "last (trace w') = LogMetric ''best_dev_metric'' b"
    and "emitted ''best_dev_metric'' (trace w') = emitted ''best_dev_metric'' (trace w) @ [b]"
    using pytorch_train_impl_Inr by blast+
  obtain st w1 where rl: "reload_model start_from_scratch w = (Inr st, w1)"
    using p by (auto simp: pytorch_train_impl_def split: prod.splits sum.splits)
  define i where "i = (case st of Some s \<Rightarrow> epoch s | None \<Rightarrow> 0)"
  define l0 where "l0 = \<lparr>epoch_var = None,
     best_var = (case st of Some s \<Rightarrow> best_dev_metric s | None \<Rightarrow> None), not_improving_since = 0\<rparr>"
  obtain r w2 where fl: "for_loop env patience max_epoch i l0 w1 = (r, w2)"
    by (cases "for_loop env patience max_epoch i l0 w1")
  have "after_loop (r, w2) = (Inr b, w')"
    using p rl fl by (simp add: pytorch_train_impl_def i_def l0_def)
  then obtain l' where "r = Inr l'" "epoch_var l' \<noteq> None" "b = best_var l'"
    by (auto simp: after_loop_def split: sum.splits option.splits)
  then show "b \<noteq> None"
    using for_loop_best_bound [of env patience max_epoch i l0 w1 l' w2] fl by (simp add: l0_def)
next
  assume p: "pytorch_train_impl env max_epoch patience use_progress_bar start_from_scratch w = (Inl x, w')"
  have "emitted ''best_dev_metric'' (trace w') = emitted ''best_dev_metric'' (trace w)"
    using pytorch_train_impl_Inl [OF p] by simp
  then show "emitted ''best_dev_metric''
        (trace (snd (train is_orion_on env patience max_epoch use_progress_bar start_from_scratch w))) =
      emitted ''best_dev_metric'' (trace w)"
    using p by (cases x) (auto simp: train_def report_results_def emitted_append)
qed

theorem best_metric_emitted_on_return_witness:
  "pytorch_train_impl env_high 1 1 True False fresh_world =
     (Inr (Some (9 / 10)),
      \<lparr>out_dir = Dir (Some 19) (Some \<lparr>best_dev_metric = Some (9 / 10), epoch = 1\<rparr>),
       model = 19,
       trace =
         [Makedirs, LogMetric ''dev_metric'' (Some (9 / 10)),
          LogMetric ''loss'' (Some (1 / 4)), TorchSave 19,
          WriteStats \<lparr>best_dev_metric = Some (9 / 10), epoch = 1\<rparr>,
          LogMetric ''best_dev_metric'' (Some (9 / 10))]\<rparr>) \<and>
   emitted ''best_dev_metric''
         [Makedirs, LogMetric ''dev_metric'' (Some (9 / 10)),
          LogMetric ''loss'' (Some (1 / 4)), TorchSave 19,
          WriteStats \<lparr>best_dev_metric = Some (9 / 10), epoch = 1\<rparr>,
          LogMetric ''best_dev_metric'' (Some (9 / 10))] = [Some (9 / 10)] \<and>
   pytorch_train_impl env_oom 3 1 True False fresh_world =
     (Inl (RuntimeError ''CUDA out of memory. Tried to allocate 2.00 GiB''),
      \<lparr>out_dir = Dir None None, model = 0, trace = [Makedirs]\<rparr>) \<and>
   emitted ''best_dev_metric'' (trace (snd (train True env_oom 1 3 True False fresh_world))) = []"
proof -
  have a: "pytorch_train_impl env_high 1 1 True False fresh_world =
     (Inr (Some (9 / 10)),
      \<lparr>out_dir = Dir (Some 19) (Some \<lparr>best_dev_metric = Some (9 / 10), epoch = 1\<rparr>),
       model = 19,
       trace =
         [Makedirs, LogMetric ''dev_metric'' (Some (9 / 10)),
          LogMetric ''loss'' (Some (1 / 4)), TorchSave 19,
          WriteStats \<lparr>best_dev_metric = Some (9 / 10), epoch = 1\<rparr>,
          LogMetric ''best_dev_metric'' (Some (9 / 10))]\<rparr>)"
    by (simp add: run_eval env_high_def)
  show ?thesis
    using a run_oom
      best_metric_emitted_on_return [of env_high 1 1 True False fresh_world "Some (9 / 10)"
        "\<lparr>out_dir = Dir (Some 19) (Some \<lparr>best_dev_metric = Some (9 / 10), epoch = 1\<rparr>),
       model = 19,
       trace =
         [Makedirs, LogMetric ''dev_metric'' (Some (9 / 10)),
          LogMetric ''loss'' (Some (1 / 4)), TorchSave 19,
          WriteStats \<lparr>best_dev_metric = Some (9 / 10), epoch = 1\<rparr>,
          LogMetric ''best_dev_metric'' (Some (9 / 10))]\<rparr>"]
      best_metric_emitted_on_return [where env = env_oom and max_epoch = 3 and patience = 1
        and use_progress_bar = True and start_from_scratch = False and w = fresh_world
        and x = "RuntimeError ''CUDA out of memory. Tried to allocate 2.00 GiB''"
        and w' = "\<lparr>out_dir = Dir None None, model = 0, trace = [Makedirs]\<rparr>"
        and is_orion_on = True]
    by (simp add: fresh_world_def)
qed

subsection \<open>The improvement check\<close>

lemma train_and_eval_checkpoints:
  assumes "train_and_eval ee w = (r, w1)"
  shows "checkpoint_events (trace w1) = checkpoint_events (trace w) \<and>
         written_bests (trace w1) = written_bests (trace w)"
  using assms
  by (auto simp: train_and_eval_def log_metric_def Let_def checkpoint_events_append written_bests_append
      split: prod.splits sum.splits)

lemma epoch_body_metric:
  assumes "dev_metric_of ee = Some dm" and "out_dir w = Dir m st"
  obtains w' where
    "epoch_body ee e l w =
       (Inr (if improves (best_var l) dm then l\<lparr>best_var := Some dm, not_improving_since := 0\<rparr>
             else l\<lparr>not_improving_since := not_improving_since l + 1\<rparr>), w')"
    "out_dir w' = Dir (if improves (best_var l) dm then Some (model w') else m)
       (Some \<lparr>best_dev_metric = (if improves (best_var l) dm then Some dm else best_var l), epoch = e + 1\<rparr>)"
    "checkpoint_events (trace w') = checkpoint_events (trace w) @
       (if improves (best_var l) dm then [TorchSave (model w')] else []) @
       [WriteStats \<lparr>best_dev_metric = (if improves (best_var l) dm then Some dm else best_var l), epoch = e + 1\<rparr>]"
    "written_bests (trace w') = written_bests (trace w) @
       [if improves (best_var l) dm then Some dm else best_var l]"
proof -
  obtain rl w1 where te: "train_and_eval ee w = (Inr (rl, dm), w1)"
    using dev_metric_of_Some [OF assms(1)] by blast
  note c = train_and_eval_checkpoints [OF te]
  show thesis
    by (rule that [of "snd (epoch_body ee e l w)"])
       (simp_all add: epoch_body_ok [OF te assms(2)] Let_def c checkpoint_events_append written_bests_append)
qed

lemma epoch_body_metric_of:
  assumes "epoch_body ee e l w = (Inr l', w')"
  obtains dm m st where "dev_metric_of ee = Some dm" and "out_dir w = Dir m st"
proof -
  obtain rl dm w1 m st where "train_and_eval ee w = (Inr (rl, dm), w1)" "out_dir w = Dir m st"
    using epoch_body_Inr_pre [OF assms] by blast
  then show thesis using that dev_metric_of_eq by blast
qed

lemma for_loop_continue:
  assumes "i < max_epoch" and "epoch_body (env i) i (l\<lparr>epoch_var := Some i\<rparr>) w = (Inr l', w')"
    and "\<not> patience \<le> not_improving_since l'"
  shows "for_loop env patience max_epoch i l w = for_loop env patience max_epoch (i + 1) l' w'"
  using assms by (simp add: for_loop.simps [of env patience max_epoch i])

lemma for_loop_stop:
  assumes "i < max_epoch" and "epoch_body (env i) i (l\<lparr>epoch_var := Some i\<rparr>) w = (Inr l', w')"
    and "patience \<le> not_improving_since l'"
  shows "for_loop env patience max_epoch i l w = (Inr l', w')"
  using assms by (simp add: for_loop.simps [of env patience max_epoch i])

lemma reload_model_fresh:
  assumes "start_from_scratch \<or> \<not> exists_saved_model w"
  obtains w1 m st where "reload_model start_from_scratch w = (Inr None, w1)"
    and "out_dir w1 = Dir m st"
    and "checkpoint_events (trace w1) = checkpoint_events (trace w)"
    and "written_bests (trace w1) = written_bests (trace w)"
proof (cases "out_dir w")
  case NoDir
  show ?thesis
    by (rule that [of "makedirs w" None None])
       (simp_all add: NoDir reload_model_def exists_saved_model_def exists_output_def makedirs_def
          checkpoint_events_append written_bests_append)
next
  case (Dir m st)
  show ?thesis
    by (rule that [of w m st])
       (use assms Dir in \<open>auto simp: reload_model_def exists_saved_model_def exists_output_def
          split: option.splits\<close>)
qed

lemma improving_scenario:
  assumes e0: "dev_metric_of (env 0) = Some (1 / 2)"
    and e1: "dev_metric_of (env 1) = Some (3 / 5)"
    and e2: "dev_metric_of (env 2) = Some (11 / 20)"
    and fresh: "start_from_scratch \<or> \<not> exists_saved_model w"
  shows "\<exists>w' p0 p1.
     pytorch_train_impl env 3 5 use_progress_bar start_from_scratch w = (Inr (Some (3 / 5)), w') \<and>
     checkpoint_events (trace w') = checkpoint_events (trace w) @
       [TorchSave p0, WriteStats \<lparr>best_dev_metric = Some (1 / 2), epoch = 1\<rparr>,
        TorchSave p1, WriteStats \<lparr>best_dev_metric = Some (3 / 5), epoch = 2\<rparr>,
        WriteStats \<lparr>best_dev_metric = Some (3 / 5), epoch = 3\<rparr>]"
proof -
  define l0 where "l0 = \<lparr>epoch_var = None, best_var = None, not_improving_since = 0\<rparr>"
  obtain w1 m st where rl: "reload_model start_from_scratch w = (Inr None, w1)"
    and d1: "out_dir w1 = Dir m st"
    and c1: "checkpoint_events (trace w1) = checkpoint_events (trace w)"
    using reload_model_fresh [OF fresh] by metis
  obtain wa where ba: "epoch_body (env 0) 0 (l0\<lparr>epoch_var := Some 0\<rparr>) w1 =
        (Inr \<lparr>epoch_var = Some 0, best_var = Some (1 / 2), not_improving_since = 0\<rparr>, wa)"
    and da: "out_dir wa = Dir (Some (model wa)) (Some \<lparr>best_dev_metric = Some (1 / 2), epoch = 1\<rparr>)"
    and ca: "checkpoint_events (trace wa) = checkpoint_events (trace w1) @
       [TorchSave (model wa), WriteStats \<lparr>best_dev_metric = Some (1 / 2), epoch = 1\<rparr>]"
    using epoch_body_metric [OF e0 d1, of 0 "l0\<lparr>epoch_var := Some 0\<rparr>"]
    by (simp add: l0_def improves_def) metis
  obtain wb where bb: "epoch_body (env 1) 1
        (\<lparr>epoch_var = Some 0, best_var = Some (1 / 2), not_improving_since = 0\<rparr>\<lparr>epoch_var := Some 1\<rparr>) wa =
        (Inr \<lparr>epoch_var = Some 1, best_var = Some (3 / 5), not_improving_since = 0\<rparr>, wb)"
    and db: "out_dir wb = Dir (Some (model wb)) (Some \<lparr>best_dev_metric = Some (3 / 5), epoch = 2\<rparr>)"
    and cb: "checkpoint_events (trace wb) = checkpoint_events (trace wa) @
       [TorchSave (model wb), WriteStats \<lparr>best_dev_metric = Some (3 / 5), epoch = 2\<rparr>]"
    using epoch_body_metric [OF e1 da, of 1
        "\<lparr>epoch_var = Some 0, best_var = Some (1 / 2), not_improving_since = 0\<rparr>\<lparr>epoch_var := Some 1\<rparr>"]
    by (simp add: improves_def) metis
  obtain wc where bc: "epoch_body (env 2) 2
        (\<lparr>epoch_var = Some 1, best_var = Some (3 / 5), not_improving_since = 0\<rparr>\<lparr>epoch_var := Some 2\<rparr>) wb =
        (Inr \<lparr>epoch_var = Some 2, best_var = Some (3 / 5), not_improving_since = 1\<rparr>, wc)"
    and cc: "checkpoint_events (trace wc) = checkpoint_events (trace wb) @
       [WriteStats \<lparr>best_dev_metric = Some (3 / 5), epoch = 3\<rparr>]"
    using epoch_body_metric [OF e2 db, of 2
        "\<lparr>epoch_var = Some 1, best_var = Some (3 / 5), not_improving_since = 0\<rparr>\<lparr>epoch_var := Some 2\<rparr>"]
    by (simp add: improves_def) metis
  have "for_loop env 5 3 0 l0 w1 =
        for_loop env 5 3 1 \<lparr>epoch_var = Some 0, best_var = Some (1 / 2), not_improving_since = 0\<rparr> wa"
    using for_loop_continue [of 0 3 env l0 w1 _ wa 5] ba by simp
  also have "\<dots> = for_loop env 5 3 2 \<lparr>epoch_var = Some 1, best_var = Some (3 / 5), not_improving_since = 0\<rparr> wb"
    using for_loop_continue [of 1 3 env _ wa _ wb 5] bb by simp
  also have "\<dots> = for_loop env 5 3 3 \<lparr>epoch_var = Some 2, best_var = Some (3 / 5), not_improving_since = 1\<rparr> wc"
    using for_loop_continue [of 2 3 env _ wb _ wc 5] bc by simp
  also have "\<dots> = (Inr \<lparr>epoch_var = Some 2, best_var = Some (3 / 5), not_improving_since = 1\<rparr>, wc)"
    by (simp add: for_loop_not_entered)
  finally have "pytorch_train_impl env 3 5 use_progress_bar start_from_scratch w =
      (Inr (Some (3 / 5)), log_metric ''best_dev_metric'' (Some (3 / 5)) wc)"
    using rl by (simp add: pytorch_train_impl_def after_loop_def l0_def)
  moreover have "checkpoint_events (trace (log_metric ''best_dev_metric'' (Some (3 / 5)) wc)) =
     checkpoint_events (trace w) @
       [TorchSave (model wa), WriteStats \<lparr>best_dev_metric = Some (1 / 2), epoch = 1\<rparr>,
        TorchSave (model wb), WriteStats \<lparr>best_dev_metric = Some (3 / 5), epoch = 2\<rparr>,
        WriteStats \<lparr>best_dev_metric = Some (3 / 5), epoch = 3\<rparr>]"
    by (simp add: log_metric_def checkpoint_events_append c1 ca cb cc)
  ultimately show ?thesis by blast
qed


lemma epoch_body_improvement:
  assumes "epoch_body ee e l w = (Inr l', w')"
  shows "\<exists>dm. dev_metric_of ee = Some dm \<and>
     (if best_var l = None \<or> (\<exists>b. best_var l = Some b \<and> b < dm)
      then best_var l' = Some dm \<and> not_improving_since l' = 0 \<and>
           checkpoint_events (trace w') = checkpoint_events (trace w) @
             [TorchSave (model w'), WriteStats \<lparr>best_dev_metric = Some dm, epoch = e + 1\<rparr>]
      else best_var l' = best_var l \<and> not_improving_since l' = not_improving_since l + 1 \<and>
           checkpoint_events (trace w') = checkpoint_events (trace w) @
             [WriteStats \<lparr>best_dev_metric = best_var l, epoch = e + 1\<rparr>])"
proof -
  obtain dm m st where dm: "dev_metric_of ee = Some dm" and d: "out_dir w = Dir m st"
    using epoch_body_metric_of [OF assms] by blast
  have i: "improves (best_var l) dm \<longleftrightarrow> best_var l = None \<or> (\<exists>b. best_var l = Some b \<and> b < dm)"
    by (cases "best_var l") (simp_all add: improves_def)
  obtain v where "epoch_body ee e l w =
       (Inr (if improves (best_var l) dm then l\<lparr>best_var := Some dm, not_improving_since := 0\<rparr>
             else l\<lparr>not_improving_since := not_improving_since l + 1\<rparr>), v)"
    and "checkpoint_events (trace v) = checkpoint_events (trace w) @
       (if improves (best_var l) dm then [TorchSave (model v)] else []) @
       [WriteStats \<lparr>best_dev_metric = (if improves (best_var l) dm then Some dm else best_var l), epoch = e + 1\<rparr>]"
    using epoch_body_metric [OF dm d, of e l] by metis
  with assms have "l' = (if improves (best_var l) dm then l\<lparr>best_var := Some dm, not_improving_since := 0\<rparr>
             else l\<lparr>not_improving_since := not_improving_since l + 1\<rparr>)"
    and "checkpoint_events (trace w') = checkpoint_events (trace w) @
       (if improves (best_var l) dm then [TorchSave (model w')] else []) @
       [WriteStats \<lparr>best_dev_metric = (if improves (best_var l) dm then Some dm else best_var l), epoch = e + 1\<rparr>]"
    by simp_all
  then show ?thesis using dm i by (cases "improves (best_var l) dm") auto
qed

text \<open>
  Claim C3. In every epoch that completes, with \<open>dm\<close> the dev metric of the epoch: when
  \<^verbatim>\<open>best_dev_metric\<close> is \<^verbatim>\<open>None\<close> or \<open>dm\<close> is strictly greater, the parameters are saved,
  the streak is reset to 0 and \<open>dm\<close> is the new best; otherwise (an equal metric
  included) nothing is saved, the streak grows by one and the best is kept. In particular,
  with \<^verbatim>\<open>max_epoch = 3\<close>, \<^verbatim>\<open>patience = 5\<close> and the dev metrics 0.5, 0.6, 0.55 on a fresh start,
  the model is saved in the epochs 0 and 1 only, three state records are written, and the
  run returns 0.6 after the epoch 2, the last one below \<^verbatim>\<open>max_epoch\<close>.
\<close>
theorem model_saved_exactly_on_improvement:
  "(epoch_body ee e l w = (Inr l', w') \<longrightarrow>
     (\<exists>dm. dev_metric_of ee = Some dm \<and>
       (if best_var l = None \<or> (\<exists>b. best_var l = Some b \<and> b < dm)
        then best_var l' = Some dm \<and> not_improving_since l' = 0 \<and>
             checkpoint_events (trace w') = checkpoint_events (trace w) @
               [TorchSave (model w'), WriteStats \<lparr>best_dev_metric = Some dm, epoch = e + 1\<rparr>]
        else best_var l' = best_var l \<and> not_improving_since l' = not_improving_since l + 1 \<and>
             checkpoint_events (trace w') = checkpoint_events (trace w) @
               [WriteStats \<lparr>best_dev_metric = best_var l, epoch = e + 1\<rparr>]))) \<and>
   (dev_metric_of (env 0) = Some (1 / 2) \<and> dev_metric_of (env 1) = Some (3 / 5) \<and>
    dev_metric_of (env 2) = Some (11 / 20) \<and> (start_from_scratch \<or> \<not> exists_saved_model w0) \<longrightarrow>
     (\<exists>w1 p0 p1.
        pytorch_train_impl env 3 5 use_progress_bar start_from_scratch w0 = (Inr (Some (3 / 5)), w1) \<and>
        checkpoint_events (trace w1) = checkpoint_events (trace w0) @
          [TorchSave p0, WriteStats \<lparr>best_dev_metric = Some (1 / 2), epoch = 1\<rparr>,
           TorchSave p1, WriteStats \<lparr>best_dev_metric = Some (3 / 5), epoch = 2\<rparr>,
           WriteStats \<lparr>best_dev_metric = Some (3 / 5), epoch = 3\<rparr>]))"
  using epoch_body_improvement [of ee e l w l' w']
    improving_scenario [of env start_from_scratch w0 use_progress_bar]
  by blast

lemma dev_metrics_improving:
  "dev_metric_of (env_improving 0) = Some (1 / 2)"
  "dev_metric_of (env_improving 1) = Some (3 / 5)"
  "dev_metric_of (env_improving 2) = Some (11 / 20)"
  by (simp_all add: env_improving_def dev_metric_of_epoch_with)

lemma run_improving:
  "pytorch_train_impl env_improving 3 5 True False fresh_world =
   (Inr (Some (3 / 5)),
    \<lparr>out_dir = Dir (Some 8) (Some \<lparr>best_dev_metric = Some (3 / 5), epoch = 3\<rparr>),
     model = 31,
     trace =
       [Makedirs, LogMetric ''dev_metric'' (Some (1 / 2)),
        LogMetric ''loss'' (Some (1 / 4)), TorchSave 3,
        WriteStats \<lparr>best_dev_metric = Some (1 / 2), epoch = 1\<rparr>,
        LogMetric ''dev_metric'' (Some (3 / 5)),
        LogMetric ''loss'' (Some (1 / 4)), TorchSave 8,
        WriteStats \<lparr>best_dev_metric = Some (3 / 5), epoch = 2\<rparr>,
        LogMetric ''dev_metric'' (Some (11 / 20)),
        LogMetric ''loss'' (Some (1 / 4)),
        WriteStats \<lparr>best_dev_metric = Some (3 / 5), epoch = 3\<rparr>,
        LogMetric ''best_dev_metric'' (Some (3 / 5))]\<rparr>)"
  by (simp add: run_eval env_improving_def)

lemma equal_metric_epoch:
  "epoch_body (epoch_with 7 10) 1 \<lparr>epoch_var = Some 1, best_var = Some (7 / 10), not_improving_since = 0\<rparr>
     \<lparr>out_dir = Dir (Some 17) (Some \<lparr>best_dev_metric = Some (7 / 10), epoch = 1\<rparr>), model = 17, trace = []\<rparr> =
   (Inr \<lparr>epoch_var = Some 1, best_var = Some (7 / 10), not_improving_since = 1\<rparr>,
    \<lparr>out_dir = Dir (Some 17) (Some \<lparr>best_dev_metric = Some (7 / 10), epoch = 2\<rparr>), model = 17,
     trace = [LogMetric ''dev_metric'' (Some (7 / 10)), LogMetric ''loss'' (Some (1 / 4)),
              WriteStats \<lparr>best_dev_metric = Some (7 / 10), epoch = 2\<rparr>]\<rparr>)"
  by (simp add: run_eval)

theorem model_saved_exactly_on_improvement_witness:
  "epoch_body (epoch_with 7 10) 1 \<lparr>epoch_var = Some 1, best_var = Some (7 / 10), not_improving_since = 0\<rparr>
     \<lparr>out_dir = Dir (Some 17) (Some \<lparr>best_dev_metric = Some (7 / 10), epoch = 1\<rparr>), model = 17, trace = []\<rparr> =
   (Inr \<lparr>epoch_var = Some 1, best_var = Some (7 / 10), not_improving_since = 1\<rparr>,
    \<lparr>out_dir = Dir (Some 17) (Some \<lparr>best_dev_metric = Some (7 / 10), epoch = 2\<rparr>), model = 17,
     trace = [LogMetric ''dev_metric'' (Some (7 / 10)), LogMetric ''loss'' (Some (1 / 4)),
              WriteStats \<lparr>best_dev_metric = Some (7 / 10), epoch = 2\<rparr>]\<rparr>) \<and>
   dev_metric_of (env_improving 0) = Some (1 / 2) \<and> dev_metric_of (env_improving 1) = Some (3 / 5) \<and>
   dev_metric_of (env_improving 2) = Some (11 / 20) \<and> \<not> exists_saved_model fresh_world \<and>
   fst (pytorch_train_impl env_improving 3 5 True False fresh_world) = Inr (Some (3 / 5)) \<and>
   checkpoint_events (trace (snd (pytorch_train_impl env_improving 3 5 True False fresh_world))) =
     [TorchSave 3, WriteStats \<lparr>best_dev_metric = Some (1 / 2), epoch = 1\<rparr>,
      TorchSave 8, WriteStats \<lparr>best_dev_metric = Some (3 / 5), epoch = 2\<rparr>,
      WriteStats \<lparr>best_dev_metric = Some (3 / 5), epoch = 3\<rparr>]"
proof -
  have f: "\<not> exists_saved_model fresh_world"
    by (simp add: exists_saved_model_def fresh_world_def)
  show ?thesis
    using model_saved_exactly_on_improvement
      [where ee = "epoch_with 7 10" and e = 1
         and l = "\<lparr>epoch_var = Some 1, best_var = Some (7 / 10), not_improving_since = 0\<rparr>"
         and w = "\<lparr>out_dir = Dir (Some 17) (Some \<lparr>best_dev_metric = Some (7 / 10), epoch = 1\<rparr>), model = 17, trace = []\<rparr>"
         and env = env_improving and ?w0.0 = fresh_world and start_from_scratch = False
         and use_progress_bar = True]
      f dev_metrics_improving equal_metric_epoch
    by (simp add: run_improving)
qed

subsection \<open>Early stopping\<close>

lemma for_loop_streak:
  assumes "int n = patience - not_improving_since l" and "0 < n"
    and "i + int n \<le> max_epoch"
    and "out_dir w = Dir m st"
    and "\<forall>k. i \<le> k \<and> k < i + int n \<longrightarrow>
           (\<exists>dm. dev_metric_of (env k) = Some dm \<and> \<not> improves (best_var l) dm)"
  shows "\<exists>w'. for_loop env patience max_epoch i l w =
           (Inr (l\<lparr>epoch_var := Some (i + int n - 1), not_improving_since := patience\<rparr>), w') \<and>
         out_dir w' = Dir m (Some \<lparr>best_dev_metric = best_var l, epoch = i + int n\<rparr>) \<and>
         written_bests (trace w') = written_bests (trace w) @ replicate n (best_var l) \<and>
         checkpoint_events (trace w') = checkpoint_events (trace w) @
           map (\<lambda>j. WriteStats \<lparr>best_dev_metric = best_var l, epoch = i + int j + 1\<rparr>) [0..<n]"
  using assms
proof (induction n arbitrary: i l w st)
  case 0
  then show ?case by simp
next
  case (Suc k)
  have lt: "i < max_epoch" using Suc.prems(3) by simp
  obtain dm where dm: "dev_metric_of (env i) = Some dm" and ni: "\<not> improves (best_var l) dm"
    using Suc.prems(5) by force
  define l' where "l' = l\<lparr>epoch_var := Some i, not_improving_since := not_improving_since l + 1\<rparr>"
  obtain w' where eb: "epoch_body (env i) i (l\<lparr>epoch_var := Some i\<rparr>) w = (Inr l', w')"
    and d': "out_dir w' = Dir m (Some \<lparr>best_dev_metric = best_var l, epoch = i + 1\<rparr>)"
    and c': "checkpoint_events (trace w') = checkpoint_events (trace w) @
               [WriteStats \<lparr>best_dev_metric = best_var l, epoch = i + 1\<rparr>]"
    and wb': "written_bests (trace w') = written_bests (trace w) @ [best_var l]"
    using epoch_body_metric [OF dm Suc.prems(4), of i "l\<lparr>epoch_var := Some i\<rparr>"] ni
    by (simp add: l'_def) metis
  show ?case
  proof (cases k)
    case 0
    then have "patience \<le> not_improving_since l'" using Suc.prems(1) by (simp add: l'_def)
    then have "for_loop env patience max_epoch i l w = (Inr l', w')"
      using for_loop_stop [where env = env, OF lt eb] by simp
    moreover have "l' = l\<lparr>epoch_var := Some (i + int (Suc k) - 1), not_improving_since := patience\<rparr>"
      using 0 Suc.prems(1) by (simp add: l'_def)
    ultimately show ?thesis using 0 d' c' wb' by simp
  next
    case (Suc j)
    then have np: "\<not> patience \<le> not_improving_since l'" using Suc.prems(1) by (simp add: l'_def)
    have fl: "for_loop env patience max_epoch i l w = for_loop env patience max_epoch (i + 1) l' w'"
      using for_loop_continue [where env = env, OF lt eb np] .
    have h1: "int k = patience - not_improving_since l'" using Suc.prems(1) by (simp add: l'_def)
    have h2: "0 < k" using Suc by simp
    have h3: "i + 1 + int k \<le> max_epoch" using Suc.prems(3) by simp
    have h5: "\<forall>q. i + 1 \<le> q \<and> q < i + 1 + int k \<longrightarrow>
           (\<exists>dm. dev_metric_of (env q) = Some dm \<and> \<not> improves (best_var l') dm)"
      using Suc.prems(5) by (simp add: l'_def)
    obtain w'' where r: "for_loop env patience max_epoch (i + 1) l' w' =
           (Inr (l'\<lparr>epoch_var := Some (i + 1 + int k - 1), not_improving_since := patience\<rparr>), w'')"
      and d'': "out_dir w'' = Dir m (Some \<lparr>best_dev_metric = best_var l', epoch = i + 1 + int k\<rparr>)"
      and wb'': "written_bests (trace w'') = written_bests (trace w') @ replicate k (best_var l')"
      and c'': "checkpoint_events (trace w'') = checkpoint_events (trace w') @
           map (\<lambda>j. WriteStats \<lparr>best_dev_metric = best_var l', epoch = i + 1 + int j + 1\<rparr>) [0..<k]"
      using Suc.IH [OF h1 h2 h3 d' h5] by blast
    have b: "best_var l' = best_var l" by (simp add: l'_def)
    have m: "map (\<lambda>j. WriteStats \<lparr>best_dev_metric = best_var l, epoch = i + int j + 1\<rparr>) [0..<Suc k] =
          WriteStats \<lparr>best_dev_metric = best_var l, epoch = i + 1\<rparr> #
          map (\<lambda>j. WriteStats \<lparr>best_dev_metric = best_var l, epoch = i + 1 + int j + 1\<rparr>) [0..<k]"
      by (simp add: upt_conv_Cons map_Suc_upt [symmetric] add.commute add.left_commute del: upt_Suc)
    have "for_loop env patience max_epoch i l w =
           (Inr (l\<lparr>epoch_var := Some (i + int (Suc k) - 1), not_improving_since := patience\<rparr>), w'')"
      using fl r by (simp add: l'_def)
    moreover have "out_dir w'' = Dir m (Some \<lparr>best_dev_metric = best_var l, epoch = i + int (Suc k)\<rparr>)"
      using d'' b by (simp add: add.commute add.left_commute)
    moreover have "written_bests (trace w'') = written_bests (trace w) @ replicate (Suc k) (best_var l)"
      using wb'' wb' b by simp
    moreover have "checkpoint_events (trace w'') = checkpoint_events (trace w) @
           map (\<lambda>j. WriteStats \<lparr>best_dev_metric = best_var l, epoch = i + int j + 1\<rparr>) [0..<Suc k]"
      using c'' c' b m by simp
    ultimately show ?thesis by blast
  qed
qed


lemma plateau_scenario:
  assumes e0: "dev_metric_of (env 0) = Some (7 / 10)"
    and e1: "dev_metric_of (env 1) = Some (7 / 10)"
    and me: "2 \<le> max_epoch"
    and fresh: "start_from_scratch \<or> \<not> exists_saved_model w"
  shows "\<exists>w' p0.
     pytorch_train_impl env max_epoch 1 use_progress_bar start_from_scratch w = (Inr (Some (7 / 10)), w') \<and>
     out_dir w' = Dir (Some p0) (Some \<lparr>best_dev_metric = Some (7 / 10), epoch = 2\<rparr>) \<and>
     checkpoint_events (trace w') = checkpoint_events (trace w) @
       [TorchSave p0, WriteStats \<lparr>best_dev_metric = Some (7 / 10), epoch = 1\<rparr>,
        WriteStats \<lparr>best_dev_metric = Some (7 / 10), epoch = 2\<rparr>]"
proof -
  define l0 where "l0 = \<lparr>epoch_var = None, best_var = None, not_improving_since = 0\<rparr>"
  define la where "la = \<lparr>epoch_var = Some 0, best_var = Some (7 / 10), not_improving_since = 0\<rparr>"
  obtain w1 m st where rl: "reload_model start_from_scratch w = (Inr None, w1)"
    and d1: "out_dir w1 = Dir m st"
    and c1: "checkpoint_events (trace w1) = checkpoint_events (trace w)"
    using reload_model_fresh [OF fresh] by metis
  obtain wa where ba: "epoch_body (env 0) 0 (l0\<lparr>epoch_var := Some 0\<rparr>) w1 = (Inr la, wa)"
    and da: "out_dir wa = Dir (Some (model wa)) (Some \<lparr>best_dev_metric = Some (7 / 10), epoch = 1\<rparr>)"
    and ca: "checkpoint_events (trace wa) = checkpoint_events (trace w1) @
       [TorchSave (model wa), WriteStats \<lparr>best_dev_metric = Some (7 / 10), epoch = 1\<rparr>]"
    using epoch_body_metric [OF e0 d1, of 0 "l0\<lparr>epoch_var := Some 0\<rparr>"]
    by (simp add: l0_def la_def improves_def) metis
  have "for_loop env 1 max_epoch 0 l0 w1 = for_loop env 1 max_epoch (0 + 1) la wa"
    using for_loop_continue [where env = env and i = 0 and l = l0 and patience = 1, OF _ ba] me
    by (simp add: la_def)
  moreover have h: "\<forall>k. 1 \<le> k \<and> k < 1 + int 1 \<longrightarrow>
           (\<exists>dm. dev_metric_of (env k) = Some dm \<and> \<not> improves (best_var la) dm)"
  proof (intro allI impI)
    fix k :: int
    assume "1 \<le> k \<and> k < 1 + int 1"
    then have "k = 1" by simp
    then show "\<exists>dm. dev_metric_of (env k) = Some dm \<and> \<not> improves (best_var la) dm"
      using e1 by (intro exI [of _ "7 / 10"]) (simp add: la_def improves_def)
  qed
  have p1: "int 1 = 1 - not_improving_since la" by (simp add: la_def)
  have p3: "1 + int 1 \<le> max_epoch" using me by simp
  obtain wb where "for_loop env 1 max_epoch 1 la wa =
           (Inr (la\<lparr>epoch_var := Some (1 + int 1 - 1), not_improving_since := 1\<rparr>), wb)"
    and db: "out_dir wb = Dir (Some (model wa)) (Some \<lparr>best_dev_metric = best_var la, epoch = 1 + int 1\<rparr>)"
    and cb: "checkpoint_events (trace wb) = checkpoint_events (trace wa) @
           map (\<lambda>j. WriteStats \<lparr>best_dev_metric = best_var la, epoch = 1 + int j + 1\<rparr>) [0..<1]"
    using for_loop_streak [where n = 1 and patience = 1 and l = la and i = 1 and max_epoch = max_epoch
        and env = env and w = wa, OF p1 _ p3 da h]
    by auto
  ultimately have "for_loop env 1 max_epoch 0 l0 w1 =
      (Inr \<lparr>epoch_var = Some 1, best_var = Some (7 / 10), not_improving_since = 1\<rparr>, wb)"
    by (simp add: la_def)
  then have "pytorch_train_impl env max_epoch 1 use_progress_bar start_from_scratch w =
      (Inr (Some (7 / 10)), log_metric ''best_dev_metric'' (Some (7 / 10)) wb)"
    using rl by (simp add: pytorch_train_impl_def after_loop_def l0_def)
  moreover have "out_dir (log_metric ''best_dev_metric'' (Some (7 / 10)) wb) =
      Dir (Some (model wa)) (Some \<lparr>best_dev_metric = Some (7 / 10), epoch = 2\<rparr>)"
    using db by (simp add: log_metric_def la_def)
  moreover have "checkpoint_events (trace (log_metric ''best_dev_metric'' (Some (7 / 10)) wb)) =
     checkpoint_events (trace w) @
       [TorchSave (model wa), WriteStats \<lparr>best_dev_metric = Some (7 / 10), epoch = 1\<rparr>,
        WriteStats \<lparr>best_dev_metric = Some (7 / 10), epoch = 2\<rparr>]"
    by (simp add: log_metric_def checkpoint_events_append c1 ca cb la_def)
  ultimately show ?thesis by blast
qed

lemma patience_general:
  assumes "0 < patience" and "not_improving_since l = 0" and "i + patience \<le> max_epoch"
    and "out_dir w = Dir m st" and "best_var l = Some b"
    and "\<forall>k. i \<le> k \<and> k < i + patience \<longrightarrow> (\<exists>dm. dev_metric_of (env k) = Some dm \<and> dm \<le> b)"
  shows "\<exists>w'. for_loop env patience max_epoch i l w =
           (Inr (l\<lparr>epoch_var := Some (i + patience - 1), not_improving_since := patience\<rparr>), w') \<and>
         out_dir w' = Dir m (Some \<lparr>best_dev_metric = Some b, epoch = i + patience\<rparr>) \<and>
         checkpoint_events (trace w') = checkpoint_events (trace w) @
           map (\<lambda>j. WriteStats \<lparr>best_dev_metric = Some b, epoch = i + int j + 1\<rparr>) [0..<nat patience]"
proof -
  have h: "\<forall>k. i \<le> k \<and> k < i + int (nat patience) \<longrightarrow>
           (\<exists>dm. dev_metric_of (env k) = Some dm \<and> \<not> improves (best_var l) dm)"
    using assms(1,5,6) by (auto simp: improves_def)
  show ?thesis
    using for_loop_streak [where n = "nat patience" and patience = patience and l = l and i = i
        and max_epoch = max_epoch and env = env and w = w and m = m and st = st, OF _ _ _ assms(4) h]
      assms(1,2,3,5)
    by auto
qed

text \<open>
  Claim C2. With a patience \<open>P > 0\<close>: when the loop is at the head of epoch \<open>i\<close> with a
  streak of 0 and a best metric \<open>b\<close>, and each of the \<open>P\<close> epochs \<open>i, \<dots>, i + P - 1\<close> (all
  below \<^verbatim>\<open>max_epoch\<close>) completes with a dev metric that does not exceed \<open>b\<close>, the loop is
  left right after the epoch \<open>i + P - 1\<close>: that epoch is the last value of \<^verbatim>\<open>epoch\<close>, the
  state record of each of the \<open>P\<close> epochs was written, the last one with
  \<^verbatim>\<open>epoch = i + P\<close>, nothing else was written, and the best metric is still \<open>b\<close>. Nothing is
  assumed of the later epochs. In particular, with \<^verbatim>\<open>patience = 1\<close> and the dev metrics
  0.7, 0.7 in the epochs 0 and 1 of a fresh start, whatever the epoch 2 would yield and
  whatever \<^verbatim>\<open>max_epoch >= 2\<close> is, the run returns 0.7 after the second epoch, with
  \<^verbatim>\<open>epoch = 2\<close> in the state record.
\<close>
theorem patience_stops_loop:
  "(0 < patience \<and> not_improving_since l = 0 \<and> i + patience \<le> max_epoch \<and>
    out_dir w = Dir m st \<and> best_var l = Some b \<and>
    (\<forall>k. i \<le> k \<and> k < i + patience \<longrightarrow> (\<exists>dm. dev_metric_of (env k) = Some dm \<and> dm \<le> b)) \<longrightarrow>
    (\<exists>w'. for_loop env patience max_epoch i l w =
           (Inr (l\<lparr>epoch_var := Some (i + patience - 1), not_improving_since := patience\<rparr>), w') \<and>
         out_dir w' = Dir m (Some \<lparr>best_dev_metric = Some b, epoch = i + patience\<rparr>) \<and>
         checkpoint_events (trace w') = checkpoint_events (trace w) @
           map (\<lambda>j. WriteStats \<lparr>best_dev_metric = Some b, epoch = i + int j + 1\<rparr>) [0..<nat patience])) \<and>
   (dev_metric_of (env' 0) = Some (7 / 10) \<and> dev_metric_of (env' 1) = Some (7 / 10) \<and>
    2 \<le> max_epoch' \<and> (start_from_scratch \<or> \<not> exists_saved_model w0) \<longrightarrow>
    (\<exists>w1 p0.
       pytorch_train_impl env' max_epoch' 1 use_progress_bar start_from_scratch w0 =
         (Inr (Some (7 / 10)), w1) \<and>
       out_dir w1 = Dir (Some p0) (Some \<lparr>best_dev_metric = Some (7 / 10), epoch = 2\<rparr>) \<and>
       checkpoint_events (trace w1) = checkpoint_events (trace w0) @
         [TorchSave p0, WriteStats \<lparr>best_dev_metric = Some (7 / 10), epoch = 1\<rparr>,
          WriteStats \<lparr>best_dev_metric = Some (7 / 10), epoch = 2\<rparr>]))"
proof (intro conjI impI)
  assume "0 < patience \<and> not_improving_since l = 0 \<and> i + patience \<le> max_epoch \<and>
    out_dir w = Dir m st \<and> best_var l = Some b \<and>
    (\<forall>k. i \<le> k \<and> k < i + patience \<longrightarrow> (\<exists>dm. dev_metric_of (env k) = Some dm \<and> dm \<le> b))"
  then show "\<exists>w'. for_loop env patience max_epoch i l w =
           (Inr (l\<lparr>epoch_var := Some (i + patience - 1), not_improving_since := patience\<rparr>), w') \<and>
         out_dir w' = Dir m (Some \<lparr>best_dev_metric = Some b, epoch = i + patience\<rparr>) \<and>
         checkpoint_events (trace w') = checkpoint_events (trace w) @
           map (\<lambda>j. WriteStats \<lparr>best_dev_metric = Some b, epoch = i + int j + 1\<rparr>) [0..<nat patience]"
    using patience_general [of patience l i max_epoch w m st b env] by blast
next
  assume "dev_metric_of (env' 0) = Some (7 / 10) \<and> dev_metric_of (env' 1) = Some (7 / 10) \<and>
    2 \<le> max_epoch' \<and> (start_from_scratch \<or> \<not> exists_saved_model w0)"
  then show "\<exists>w1 p0.
       pytorch_train_impl env' max_epoch' 1 use_progress_bar start_from_scratch w0 =
         (Inr (Some (7 / 10)), w1) \<and>
       out_dir w1 = Dir (Some p0) (Some \<lparr>best_dev_metric = Some (7 / 10), epoch = 2\<rparr>) \<and>
       checkpoint_events (trace w1) = checkpoint_events (trace w0) @
         [TorchSave p0, WriteStats \<lparr>best_dev_metric = Some (7 / 10), epoch = 1\<rparr>,
          WriteStats \<lparr>best_dev_metric = Some (7 / 10), epoch = 2\<rparr>]"
    using plateau_scenario [of env' max_epoch' start_from_scratch w0 use_progress_bar] by blast
qed


lemma dev_metrics_plateau:
  "dev_metric_of (env_plateau 0) = Some (7 / 10)"
  "dev_metric_of (env_plateau 1) = Some (7 / 10)"
  "dev_metric_of (env_plateau 2) = Some (9 / 10)"
  by (simp_all add: env_plateau_def dev_metric_of_epoch_with)

lemma run_plateau:
  "pytorch_train_impl env_plateau 3 1 True False fresh_world =
   (Inr (Some (7 / 10)),
    \<lparr>out_dir = Dir (Some 17) (Some \<lparr>best_dev_metric = Some (7 / 10), epoch = 2\<rparr>),
     model = 17,
     trace =
       [Makedirs, LogMetric ''dev_metric'' (Some (7 / 10)),
        LogMetric ''loss'' (Some (1 / 4)), TorchSave 17,
        WriteStats \<lparr>best_dev_metric = Some (7 / 10), epoch = 1\<rparr>,
        LogMetric ''dev_metric'' (Some (7 / 10)),
        LogMetric ''loss'' (Some (1 / 4)),
        WriteStats \<lparr>best_dev_metric = Some (7 / 10), epoch = 2\<rparr>,
        LogMetric ''best_dev_metric'' (Some (7 / 10))]\<rparr>)"
  by (simp add: run_eval env_plateau_def)

lemma loop_plateau:
  "for_loop env_plateau 1 3 1 \<lparr>epoch_var = Some 0, best_var = Some (7 / 10), not_improving_since = 0\<rparr>
     \<lparr>out_dir = Dir (Some 17) (Some \<lparr>best_dev_metric = Some (7 / 10), epoch = 1\<rparr>), model = 17, trace = []\<rparr> =
   (Inr \<lparr>epoch_var = Some 1, best_var = Some (7 / 10), not_improving_since = 1\<rparr>,
    \<lparr>out_dir = Dir (Some 17) (Some \<lparr>best_dev_metric = Some (7 / 10), epoch = 2\<rparr>), model = 17,
     trace = [LogMetric ''dev_metric'' (Some (7 / 10)), LogMetric ''loss'' (Some (1 / 4)),
              WriteStats \<lparr>best_dev_metric = Some (7 / 10), epoch = 2\<rparr>]\<rparr>)"
  by (simp add: run_eval env_plateau_def)

theorem patience_stops_loop_witness:
  "(0::int) < 1 \<and> (1::int) + 1 \<le> 3 \<and> (7 / 10 :: rat) \<le> 7 / 10 \<and>
   dev_metric_of (env_plateau 0) = Some (7 / 10) \<and> dev_metric_of (env_plateau 1) = Some (7 / 10) \<and>
   dev_metric_of (env_plateau 2) = Some (9 / 10) \<and> \<not> exists_saved_model fresh_world \<and>
   for_loop env_plateau 1 3 1 \<lparr>epoch_var = Some 0, best_var = Some (7 / 10), not_improving_since = 0\<rparr>
     \<lparr>out_dir = Dir (Some 17) (Some \<lparr>best_dev_metric = Some (7 / 10), epoch = 1\<rparr>), model = 17, trace = []\<rparr> =
   (Inr \<lparr>epoch_var = Some 1, best_var = Some (7 / 10), not_improving_since = 1\<rparr>,
    \<lparr>out_dir = Dir (Some 17) (Some \<lparr>best_dev_metric = Some (7 / 10), epoch = 2\<rparr>), model = 17,
     trace = [LogMetric ''dev_metric'' (Some (7 / 10)), LogMetric ''loss'' (Some (1 / 4)),
              WriteStats \<lparr>best_dev_metric = Some (7 / 10), epoch = 2\<rparr>]\<rparr>) \<and>
   fst (pytorch_train_impl env_plateau 3 1 True False fresh_world) = Inr (Some (7 / 10)) \<and>
   out_dir (snd (pytorch_train_impl env_plateau 3 1 True False fresh_world)) =
     Dir (Some 17) (Some \<lparr>best_dev_metric = Some (7 / 10), epoch = 2\<rparr>) \<and>
   checkpoint_events (trace (snd (pytorch_train_impl env_plateau 3 1 True False fresh_world))) =
     [TorchSave 17, WriteStats \<lparr>best_dev_metric = Some (7 / 10), epoch = 1\<rparr>,
      WriteStats \<lparr>best_dev_metric = Some (7 / 10), epoch = 2\<rparr>]"
proof -
  have f: "\<not> exists_saved_model fresh_world"
    by (simp add: exists_saved_model_def fresh_world_def)
  have h: "\<forall>k. (1::int) \<le> k \<and> k < 1 + 1 \<longrightarrow> (\<exists>dm. dev_metric_of (env_plateau k) = Some dm \<and> dm \<le> 7 / 10)"
  proof (intro allI impI)
    fix k :: int
    assume "1 \<le> k \<and> k < 1 + 1"
    then have "k = 1" by simp
    then show "\<exists>dm. dev_metric_of (env_plateau k) = Some dm \<and> dm \<le> 7 / 10"
      by (intro exI [of _ "7 / 10"]) (simp add: dev_metrics_plateau)
  qed
  show ?thesis
    using patience_stops_loop
      [where patience = 1 and i = 1 and max_epoch = 3 and env = env_plateau and b = "7 / 10"
         and l = "\<lparr>epoch_var = Some 0, best_var = Some (7 / 10), not_improving_since = 0\<rparr>"
         and w = "\<lparr>out_dir = Dir (Some 17) (Some \<lparr>best_dev_metric = Some (7 / 10), epoch = 1\<rparr>), model = 17, trace = []\<rparr>"
         and m = "Some 17" and st = "Some \<lparr>best_dev_metric = Some (7 / 10), epoch = 1\<rparr>"
         and env' = env_plateau and max_epoch' = 3 and start_from_scratch = False
         and ?w0.0 = fresh_world and use_progress_bar = True]
      f h dev_metrics_plateau
    by (simp add: run_plateau loop_plateau)
qed

subsection \<open>Resuming\<close>

lemma reload_model_Inr:
  assumes "reload_model start_from_scratch w = (Inr st, w1)"
  shows "(\<exists>m s'. out_dir w1 = Dir m s') \<and>
         (\<forall>s. st = Some s \<longrightarrow> exists_saved_model w1 \<and> load_stats w1 = Inr s)"
  using assms
  by (auto simp: reload_model_def exists_saved_model_def exists_output_def load_state_dict_def
      load_stats_def makedirs_def Let_def
      split: if_splits dir_state.splits option.splits sum.splits)

lemma epoch_body_saved:
  assumes "epoch_body ee e l w = (Inr l', w')"
    and "best_var l = None \<or> exists_saved_model w"
  shows "exists_saved_model w' \<and>
         load_stats w' = Inr \<lparr>best_dev_metric = best_var l', epoch = e + 1\<rparr> \<and>
         last (trace w') = WriteStats \<lparr>best_dev_metric = best_var l', epoch = e + 1\<rparr> \<and>
         best_var l' \<noteq> None"
proof -
  obtain rl dm w1 m st where te: "train_and_eval ee w = (Inr (rl, dm), w1)" and d: "out_dir w = Dir m st"
    using epoch_body_Inr_pre [OF assms(1)] by blast
  have "\<not> improves (best_var l) dm \<Longrightarrow> m \<noteq> None"
    using assms(2) d by (auto simp: improves_def exists_saved_model_def split: option.splits)
  then show ?thesis
    using assms(1) epoch_body_ok [OF te d, of e l]
    by (auto simp: Let_def exists_saved_model_def load_stats_def improves_def
        split: if_splits option.splits)
qed

lemma runs_epoch_invariant:
  assumes "runs_epoch env patience max_epoch start_from_scratch w0 i l w"
  shows "i < max_epoch \<and> (best_var l = None \<or> exists_saved_model w)"
  using assms
proof (induction rule: runs_epoch.induct)
  case (first st w1 i l)
  then show ?case
    using reload_model_Inr [OF first(1)] by (cases st) auto
next
  case (following i l w l' w')
  then show ?case
    using epoch_body_saved [OF following(2)] by simp
qed

lemma runs_epoch_on_path:
  assumes "runs_epoch env patience max_epoch start_from_scratch w0 i l w"
  shows "pytorch_train_impl env max_epoch patience use_progress_bar start_from_scratch w0 =
         after_loop (for_loop env patience max_epoch i l w)"
  using assms
proof (induction rule: runs_epoch.induct)
  case (first st w1 i l)
  then show ?case by (simp add: pytorch_train_impl_def)
next
  case (following i l w l' w')
  have "i < max_epoch" using following(4) by simp
  from for_loop_continue [where env = env, OF this following(2,3)] following(5)
  show ?case by simp
qed

lemma reload_model_after_write:
  assumes "exists_saved_model w" and "load_stats w = Inr s"
  shows "\<exists>w'. reload_model False w = (Inr (Some s), w') \<and> out_dir w' = out_dir w"
  using assms
  by (auto simp: reload_model_def exists_saved_model_def load_state_dict_def load_stats_def Let_def
      split: dir_state.splits option.splits)

text \<open>
  Claim C1. In every run, for every epoch \<open>e\<close> whose body completes, the state record on
  disk at the end of the epoch, written last, has \<^verbatim>\<open>epoch = e + 1\<close> and the
  \<^verbatim>\<open>best_dev_metric\<close> of the loop. A later run over the same output location with
  \<^verbatim>\<open>start_from_scratch = False\<close>, whatever its other arguments, loads exactly this record,
  leaves the files as they are, and enters its loop at \<open>e + 1\<close> with that
  \<^verbatim>\<open>best_dev_metric\<close>.
\<close>
theorem resume_after_completed_epoch:
  assumes "runs_epoch env patience max_epoch start_from_scratch w0 e l w"
    and "epoch_body (env e) e (l\<lparr>epoch_var := Some e\<rparr>) w = (Inr l', w')"
  shows "load_stats w' = Inr \<lparr>best_dev_metric = best_var l', epoch = e + 1\<rparr> \<and>
         last (trace w') = WriteStats \<lparr>best_dev_metric = best_var l', epoch = e + 1\<rparr> \<and>
         (\<exists>w''. reload_model False w' = (Inr (Some \<lparr>best_dev_metric = best_var l', epoch = e + 1\<rparr>), w'') \<and>
                out_dir w'' = out_dir w' \<and>
                pytorch_train_impl env2 max_epoch2 patience2 use_progress_bar2 False w' =
                  after_loop (for_loop env2 patience2 max_epoch2 (e + 1)
                    \<lparr>epoch_var = None, best_var = best_var l', not_improving_since = 0\<rparr> w''))"
proof -
  have "best_var (l\<lparr>epoch_var := Some e\<rparr>) = None \<or> exists_saved_model w"
    using runs_epoch_invariant [OF assms(1)] by simp
  from epoch_body_saved [OF assms(2) this]
  have s: "exists_saved_model w'"
    and ls: "load_stats w' = Inr \<lparr>best_dev_metric = best_var l', epoch = e + 1\<rparr>"
    and la: "last (trace w') = WriteStats \<lparr>best_dev_metric = best_var l', epoch = e + 1\<rparr>"
    by simp_all
  obtain w'' where rl: "reload_model False w' =
      (Inr (Some \<lparr>best_dev_metric = best_var l', epoch = e + 1\<rparr>), w'')"
    and d: "out_dir w'' = out_dir w'"
    using reload_model_after_write [OF s ls] by blast
  have "pytorch_train_impl env2 max_epoch2 patience2 use_progress_bar2 False w' =
      after_loop (for_loop env2 patience2 max_epoch2 (e + 1)
         \<lparr>epoch_var = None, best_var = best_var l', not_improving_since = 0\<rparr> w'')"
    using rl by (simp add: pytorch_train_impl_def)
  with ls la rl d show ?thesis by blast
qed


lemma first_epoch_improving:
  "runs_epoch env_improving 5 3 False fresh_world 0
     \<lparr>epoch_var = None, best_var = None, not_improving_since = 0\<rparr>
     \<lparr>out_dir = Dir None None, model = 0, trace = [Makedirs]\<rparr>"
  by (rule runs_epoch.first [where st = None])
     (simp_all add: reload_model_def exists_saved_model_def exists_output_def makedirs_def fresh_world_def)

lemma first_body_improving:
  "epoch_body (env_improving 0) 0
     (\<lparr>epoch_var = None, best_var = None, not_improving_since = 0\<rparr>\<lparr>epoch_var := Some 0\<rparr>)
     \<lparr>out_dir = Dir None None, model = 0, trace = [Makedirs]\<rparr> =
   (Inr \<lparr>epoch_var = Some 0, best_var = Some (1 / 2), not_improving_since = 0\<rparr>,
    \<lparr>out_dir = Dir (Some 3) (Some \<lparr>best_dev_metric = Some (1 / 2), epoch = 1\<rparr>), model = 3,
     trace = [Makedirs, LogMetric ''dev_metric'' (Some (1 / 2)), LogMetric ''loss'' (Some (1 / 4)),
              TorchSave 3, WriteStats \<lparr>best_dev_metric = Some (1 / 2), epoch = 1\<rparr>]\<rparr>)"
  by (simp add: run_eval env_improving_def)

lemma second_epoch_improving:
  "runs_epoch env_improving 5 3 False fresh_world (0 + 1)
     \<lparr>epoch_var = Some 0, best_var = Some (1 / 2), not_improving_since = 0\<rparr>
     \<lparr>out_dir = Dir (Some 3) (Some \<lparr>best_dev_metric = Some (1 / 2), epoch = 1\<rparr>), model = 3,
      trace = [Makedirs, LogMetric ''dev_metric'' (Some (1 / 2)), LogMetric ''loss'' (Some (1 / 4)),
               TorchSave 3, WriteStats \<lparr>best_dev_metric = Some (1 / 2), epoch = 1\<rparr>]\<rparr>"
  by (rule runs_epoch.following [OF first_epoch_improving first_body_improving]) simp_all

lemma second_body_improving:
  "epoch_body (env_improving (0 + 1)) (0 + 1)
     (\<lparr>epoch_var = Some 0, best_var = Some (1 / 2), not_improving_since = 0\<rparr>\<lparr>epoch_var := Some (0 + 1)\<rparr>)
     \<lparr>out_dir = Dir (Some 3) (Some \<lparr>best_dev_metric = Some (1 / 2), epoch = 1\<rparr>), model = 3,
      trace = [Makedirs, LogMetric ''dev_metric'' (Some (1 / 2)), LogMetric ''loss'' (Some (1 / 4)),
               TorchSave 3, WriteStats \<lparr>best_dev_metric = Some (1 / 2), epoch = 1\<rparr>]\<rparr> =
   (Inr \<lparr>epoch_var = Some 1, best_var = Some (3 / 5), not_improving_since = 0\<rparr>,
    \<lparr>out_dir = Dir (Some 8) (Some \<lparr>best_dev_metric = Some (3 / 5), epoch = 2\<rparr>), model = 8,
     trace = [Makedirs, LogMetric ''dev_metric'' (Some (1 / 2)), LogMetric ''loss'' (Some (1 / 4)),
              TorchSave 3, WriteStats \<lparr>best_dev_metric = Some (1 / 2), epoch = 1\<rparr>,
              LogMetric ''dev_metric'' (Some (3 / 5)), LogMetric ''loss'' (Some (1 / 4)),
              TorchSave 8, WriteStats \<lparr>best_dev_metric = Some (3 / 5), epoch = 2\<rparr>]\<rparr>)"
  by (simp add: run_eval env_improving_def)

theorem resume_after_completed_epoch_witness:
  "runs_epoch env_improving 5 3 False fresh_world (0 + 1)
     \<lparr>epoch_var = Some 0, best_var = Some (1 / 2), not_improving_since = 0\<rparr>
     \<lparr>out_dir = Dir (Some 3) (Some \<lparr>best_dev_metric = Some (1 / 2), epoch = 1\<rparr>), model = 3,
      trace = [Makedirs, LogMetric ''dev_metric'' (Some (1 / 2)), LogMetric ''loss'' (Some (1 / 4)),
               TorchSave 3, WriteStats \<lparr>best_dev_metric = Some (1 / 2), epoch = 1\<rparr>]\<rparr> \<and>
   epoch_body (env_improving (0 + 1)) (0 + 1)
     (\<lparr>epoch_var = Some 0, best_var = Some (1 / 2), not_improving_since = 0\<rparr>\<lparr>epoch_var := Some (0 + 1)\<rparr>)
     \<lparr>out_dir = Dir (Some 3) (Some \<lparr>best_dev_metric = Some (1 / 2), epoch = 1\<rparr>), model = 3,
      trace = [Makedirs, LogMetric ''dev_metric'' (Some (1 / 2)), LogMetric ''loss'' (Some (1 / 4)),
               TorchSave 3, WriteStats \<lparr>best_dev_metric = Some (1 / 2), epoch = 1\<rparr>]\<rparr> =
   (Inr \<lparr>epoch_var = Some 1, best_var = Some (3 / 5), not_improving_since = 0\<rparr>,
    \<lparr>out_dir = Dir (Some 8) (Some \<lparr>best_dev_metric = Some (3 / 5), epoch = 2\<rparr>), model = 8,
     trace = [Makedirs, LogMetric ''dev_metric'' (Some (1 / 2)), LogMetric ''loss'' (Some (1 / 4)),
              TorchSave 3, WriteStats \<lparr>best_dev_metric = Some (1 / 2), epoch = 1\<rparr>,
              LogMetric ''dev_metric'' (Some (3 / 5)), LogMetric ''loss'' (Some (1 / 4)),
              TorchSave 8, WriteStats \<lparr>best_dev_metric = Some (3 / 5), epoch = 2\<rparr>]\<rparr>) \<and>
   load_stats
     \<lparr>out_dir = Dir (Some 8) (Some \<lparr>best_dev_metric = Some (3 / 5), epoch = 2\<rparr>), model = 8,
      trace = [Makedirs, LogMetric ''dev_metric'' (Some (1 / 2)), LogMetric ''loss'' (Some (1 / 4)),
              TorchSave 3, WriteStats \<lparr>best_dev_metric = Some (1 / 2), epoch = 1\<rparr>,
              LogMetric ''dev_metric'' (Some (3 / 5)), LogMetric ''loss'' (Some (1 / 4)),
              TorchSave 8, WriteStats \<lparr>best_dev_metric = Some (3 / 5), epoch = 2\<rparr>]\<rparr> =
     Inr \<lparr>best_dev_metric = Some (3 / 5), epoch = 2\<rparr> \<and>
   fst (reload_model False
     \<lparr>out_dir = Dir (Some 8) (Some \<lparr>best_dev_metric = Some (3 / 5), epoch = 2\<rparr>), model = 8,
      trace = [Makedirs, LogMetric ''dev_metric'' (Some (1 / 2)), LogMetric ''loss'' (Some (1 / 4)),
              TorchSave 3, WriteStats \<lparr>best_dev_metric = Some (1 / 2), epoch = 1\<rparr>,
              LogMetric ''dev_metric'' (Some (3 / 5)), LogMetric ''loss'' (Some (1 / 4)),
              TorchSave 8, WriteStats \<lparr>best_dev_metric = Some (3 / 5), epoch = 2\<rparr>]\<rparr>) =
     Inr (Some \<lparr>best_dev_metric = Some (3 / 5), epoch = 2\<rparr>)"
  using resume_after_completed_epoch [where ?env2.0 = env_high and ?max_epoch2.0 = 3
      and ?patience2.0 = 5 and ?use_progress_bar2.0 = True,
      OF second_epoch_improving second_body_improving]
    second_epoch_improving second_body_improving
  by auto

subsection \<open>The best metric over the life of an output location\<close>

lemma sorted_le_last:
  fixes xs :: "('a :: linorder) list"
  assumes "sorted xs" and "x \<in> set xs"
  shows "x \<le> last xs"
proof -
  have "xs \<noteq> []" using assms(2) by auto
  then have "xs = butlast xs @ [last xs]" by simp
  then have "sorted (butlast xs @ [last xs])" using assms(1) by simp
  then have "\<forall>y \<in> set (butlast xs). y \<le> last xs" by (simp add: sorted_append)
  moreover have "x \<in> set (butlast xs) \<or> x = last xs"
    using assms(2) \<open>xs = butlast xs @ [last xs]\<close>
    by (metis Un_iff empty_iff empty_set set_ConsD set_append)
  ultimately show ?thesis by auto
qed

lemma history_ok_cong:
  assumes "history_ok w" and "out_dir w' = out_dir w"
    and "written_bests (trace w') = written_bests (trace w)"
  shows "history_ok w'"
  using assms by (simp add: history_ok_def exists_saved_model_def load_stats_def)

lemma epoch_body_written:
  assumes "epoch_body ee e l w = (Inr l', w')"
  shows "written_bests (trace w') = written_bests (trace w) @ [best_var l'] \<and>
         best_var l \<le> best_var l'"
proof -
  obtain dm m st where dm: "dev_metric_of ee = Some dm" and d: "out_dir w = Dir m st"
    using epoch_body_metric_of [OF assms] by blast
  obtain v where "epoch_body ee e l w =
       (Inr (if improves (best_var l) dm then l\<lparr>best_var := Some dm, not_improving_since := 0\<rparr>
             else l\<lparr>not_improving_since := not_improving_since l + 1\<rparr>), v)"
    and "written_bests (trace v) = written_bests (trace w) @
       [if improves (best_var l) dm then Some dm else best_var l]"
    using epoch_body_metric [OF dm d, of e l] by metis
  with assms show ?thesis
    by (cases "best_var l") (auto simp: improves_def split: if_splits)
qed

lemma epoch_body_raises_history:
  assumes "epoch_body ee e l w = (Inl x, w')" and "out_dir w = Dir m st" and "history_ok w"
  shows "history_ok w'"
proof -
  have te: "train_and_eval ee w = (Inl x, w')"
    using epoch_body_Inl_dir [OF assms(1)] assms(2) by simp
  show ?thesis
    using history_ok_cong [OF assms(3) train_and_eval_out_dir [OF te]]
      train_and_eval_checkpoints [OF te] by simp
qed

lemma epoch_body_history:
  assumes eb: "epoch_body ee e l w = (Inr l', w')"
    and h: "history_ok w"
    and le: "\<forall>x \<in> set (written_bests (trace w)). x \<le> best_var l"
    and sv: "best_var l = None \<or> exists_saved_model w"
  shows "history_ok w' \<and> (\<forall>x \<in> set (written_bests (trace w')). x \<le> best_var l') \<and>
         (\<exists>m st. out_dir w' = Dir m st) \<and> exists_saved_model w'"
proof -
  note wr = epoch_body_written [OF eb]
  note sa = epoch_body_saved [OF eb sv]
  have a: "\<forall>x \<in> set (written_bests (trace w)). x \<le> best_var l'"
    using le wr by (meson order_trans)
  have "sorted (written_bests (trace w'))"
    using h a wr by (simp add: history_ok_def sorted_append)
  moreover have "exists_saved_model w'" using sa by simp
  moreover have "\<exists>s. load_stats w' = Inr s \<and> best_dev_metric s = last (written_bests (trace w'))"
    using sa wr by simp
  moreover have "\<exists>m st. out_dir w' = Dir m st"
    using sa by (auto simp: exists_saved_model_def split: dir_state.splits)
  ultimately show ?thesis using a wr by (simp add: history_ok_def)
qed

lemma for_loop_history:
  assumes "history_ok w" and "out_dir w = Dir m st"
    and "\<forall>x \<in> set (written_bests (trace w)). x \<le> best_var l"
    and "best_var l = None \<or> exists_saved_model w"
  shows "history_ok (snd (for_loop env patience max_epoch i l w))"
proof -
  have "(\<lambda>r v. history_ok v) (fst (for_loop env patience max_epoch i l w))
          (snd (for_loop env patience max_epoch i l w))"
  proof (rule for_loop_rule [where P = "\<lambda>i l w. history_ok w \<and> (\<exists>m st. out_dir w = Dir m st) \<and>
          (\<forall>x \<in> set (written_bests (trace w)). x \<le> best_var l) \<and>
          (best_var l = None \<or> exists_saved_model w)"])
    show "history_ok w \<and> (\<exists>m st. out_dir w = Dir m st) \<and>
          (\<forall>x \<in> set (written_bests (trace w)). x \<le> best_var l) \<and>
          (best_var l = None \<or> exists_saved_model w)"
      using assms by blast
  next
    fix i l w
    assume "history_ok w \<and> (\<exists>m st. out_dir w = Dir m st) \<and>
          (\<forall>x \<in> set (written_bests (trace w)). x \<le> best_var l) \<and>
          (best_var l = None \<or> exists_saved_model w)"
    then show "history_ok w" by simp
  next
    fix i l w x w'
    assume "history_ok w \<and> (\<exists>m st. out_dir w = Dir m st) \<and>
          (\<forall>x \<in> set (written_bests (trace w)). x \<le> best_var l) \<and>
          (best_var l = None \<or> exists_saved_model w)"
      and "epoch_body (env i) i (l\<lparr>epoch_var := Some i\<rparr>) w = (Inl x, w')"
    then show "history_ok w'" using epoch_body_raises_history by blast
  next
    fix i l w l' w'
    assume "history_ok w \<and> (\<exists>m st. out_dir w = Dir m st) \<and>
          (\<forall>x \<in> set (written_bests (trace w)). x \<le> best_var l) \<and>
          (best_var l = None \<or> exists_saved_model w)"
      and "epoch_body (env i) i (l\<lparr>epoch_var := Some i\<rparr>) w = (Inr l', w')"
    then show "history_ok w'"
      using epoch_body_history [of "env i" i "l\<lparr>epoch_var := Some i\<rparr>" w l' w'] by simp
  next
    fix i l w l' w'
    assume "history_ok w \<and> (\<exists>m st. out_dir w = Dir m st) \<and>
          (\<forall>x \<in> set (written_bests (trace w)). x \<le> best_var l) \<and>
          (best_var l = None \<or> exists_saved_model w)"
      and "epoch_body (env i) i (l\<lparr>epoch_var := Some i\<rparr>) w = (Inr l', w')"
    then show "history_ok w' \<and> (\<exists>m st. out_dir w' = Dir m st) \<and>
          (\<forall>x \<in> set (written_bests (trace w')). x \<le> best_var l') \<and>
          (best_var l' = None \<or> exists_saved_model w')"
      using epoch_body_history [of "env i" i "l\<lparr>epoch_var := Some i\<rparr>" w l' w'] by simp
  qed
  then show ?thesis by simp
qed


lemma reload_model_out_dir:
  assumes "reload_model start_from_scratch w = (r, w1)" and "exists_saved_model w"
  shows "out_dir w1 = out_dir w"
  using assms
  by (auto simp: reload_model_def exists_saved_model_def load_state_dict_def Let_def
      split: if_splits dir_state.splits option.splits sum.splits)

lemma reload_model_history:
  assumes rl: "reload_model start_from_scratch w = (r, w1)" and h: "history_ok w"
  shows "history_ok w1"
proof (cases "exists_saved_model w")
  case True
  show ?thesis
    using history_ok_cong [OF h reload_model_out_dir [OF rl True]]
      reload_model_quiet [OF rl, of "''best_dev_metric''"] by simp
next
  case False
  then have "written_bests (trace w) = []" using h by (auto simp: history_ok_def)
  then have "written_bests (trace w1) = []"
    using reload_model_quiet [OF rl, of "''best_dev_metric''"] by simp
  then show ?thesis by (simp add: history_ok_def)
qed

lemma pytorch_train_impl_history:
  assumes h: "history_ok w"
    and fresh: "start_from_scratch \<longrightarrow> written_bests (trace w) = []"
  shows "history_ok (snd (pytorch_train_impl env max_epoch patience use_progress_bar start_from_scratch w))"
proof -
  obtain r w1 where rl: "reload_model start_from_scratch w = (r, w1)"
    by (cases "reload_model start_from_scratch w")
  note h1 = reload_model_history [OF rl h]
  note q = reload_model_quiet [OF rl, of "''best_dev_metric''"]
  show ?thesis
  proof (cases r)
    case (Inl x)
    then show ?thesis using rl h1 by (simp add: pytorch_train_impl_def)
  next
    case (Inr st)
    define i where "i = (case st of Some s \<Rightarrow> epoch s | None \<Rightarrow> 0)"
    define l0 where "l0 = \<lparr>epoch_var = None,
       best_var = (case st of Some s \<Rightarrow> best_dev_metric s | None \<Rightarrow> None), not_improving_since = 0\<rparr>"
    note ri = reload_model_Inr [OF rl [unfolded Inr]]
    obtain m s' where d: "out_dir w1 = Dir m s'" using ri by blast
    have sv: "best_var l0 = None \<or> exists_saved_model w1"
      using ri by (cases st) (simp_all add: l0_def)
    have le: "\<forall>x \<in> set (written_bests (trace w1)). x \<le> best_var l0"
    proof (cases "written_bests (trace w1) = []")
      case True
      then show ?thesis by simp
    next
      case False
      then have ne: "written_bests (trace w) \<noteq> []" using q by simp
      then have nf: "\<not> start_from_scratch" using fresh by blast
      have ex: "exists_saved_model w" using h ne by (simp add: history_ok_def)
      obtain s where st: "st = Some s"
        using rl Inr nf ex by (auto simp: reload_model_def Let_def split: sum.splits)
      then have "load_stats w1 = Inr s" using ri by simp
      moreover obtain s2 where "load_stats w1 = Inr s2"
        and "best_dev_metric s2 = last (written_bests (trace w1))"
        using h1 False by (auto simp: history_ok_def)
      ultimately have "best_var l0 = last (written_bests (trace w1))"
        using st by (simp add: l0_def)
      moreover have "sorted (written_bests (trace w1))" using h1 by (simp add: history_ok_def)
      ultimately show ?thesis using sorted_le_last by metis
    qed
    obtain r2 w2 where fl: "for_loop env patience max_epoch i l0 w1 = (r2, w2)"
      by (cases "for_loop env patience max_epoch i l0 w1")
    have h2: "history_ok w2"
      using for_loop_history [OF h1 d le sv, of env patience max_epoch i] fl by simp
    have "history_ok (snd (after_loop (r2, w2)))"
      using h2 history_ok_cong [OF h2, of "log_metric ''best_dev_metric'' v w2" for v]
      by (auto simp: after_loop_def log_metric_def written_bests_append split: sum.splits option.splits)
    then show ?thesis
      using rl Inr fl by (simp add: pytorch_train_impl_def i_def l0_def)
  qed
qed

lemma resumed_runs_history: "history_ok w \<Longrightarrow> history_ok (resumed_runs rs w)"
proof (induction rs arbitrary: w)
  case Nil
  then show ?case by simp
next
  case (Cons r rs)
  obtain env max_epoch patience use_progress_bar where r: "r = (env, max_epoch, patience, use_progress_bar)"
    by (cases r)
  have "history_ok (snd (pytorch_train_impl env max_epoch patience use_progress_bar False w))"
    using pytorch_train_impl_history [OF Cons.prems] by simp
  then show ?case using Cons.IH r by simp
qed

lemma run_high_impl:
  "pytorch_train_impl env_high 1 1 True False fresh_world =
     (Inr (Some (9 / 10)),
      \<lparr>out_dir = Dir (Some 19) (Some \<lparr>best_dev_metric = Some (9 / 10), epoch = 1\<rparr>),
       model = 19,
       trace =
         [Makedirs, LogMetric ''dev_metric'' (Some (9 / 10)),
          LogMetric ''loss'' (Some (1 / 4)), TorchSave 19,
          WriteStats \<lparr>best_dev_metric = Some (9 / 10), epoch = 1\<rparr>,
          LogMetric ''best_dev_metric'' (Some (9 / 10))]\<rparr>)"
  by (simp add: run_eval env_high_def)

lemma rerun_low_scratch:
  "pytorch_train_impl env_low 1 1 True True
      \<lparr>out_dir = Dir (Some 19) (Some \<lparr>best_dev_metric = Some (9 / 10), epoch = 1\<rparr>),
       model = 19,
       trace =
         [Makedirs, LogMetric ''dev_metric'' (Some (9 / 10)),
          LogMetric ''loss'' (Some (1 / 4)), TorchSave 19,
          WriteStats \<lparr>best_dev_metric = Some (9 / 10), epoch = 1\<rparr>,
          LogMetric ''best_dev_metric'' (Some (9 / 10))]\<rparr> =
     (Inr (Some (1 / 2)),
      \<lparr>out_dir = Dir (Some 3) (Some \<lparr>best_dev_metric = Some (1 / 2), epoch = 1\<rparr>),
       model = 3,
       trace =
         [Makedirs, LogMetric ''dev_metric'' (Some (9 / 10)),
          LogMetric ''loss'' (Some (1 / 4)), TorchSave 19,
          WriteStats \<lparr>best_dev_metric = Some (9 / 10), epoch = 1\<rparr>,
          LogMetric ''best_dev_metric'' (Some (9 / 10)),
          LogMetric ''dev_metric'' (Some (1 / 2)),
          LogMetric ''loss'' (Some (1 / 4)), TorchSave 3,
          WriteStats \<lparr>best_dev_metric = Some (1 / 2), epoch = 1\<rparr>,
          LogMetric ''best_dev_metric'' (Some (1 / 2))]\<rparr>)"
  by (simp add: run_eval env_low_def)

text \<open>
  Claim C4, as stated, fails across a restart with \<^verbatim>\<open>start_from_scratch = True\<close>: a first run
  writes 0.9, the restart ignores the state record, begins with \<^verbatim>\<open>best_dev_metric = None\<close>
  and writes 0.5 to the same location.
\<close>
theorem written_bests_counterexample:
  "written_bests (trace (snd (pytorch_train_impl env_low 1 1 True True
       (snd (pytorch_train_impl env_high 1 1 True False fresh_world))))) = [Some (9 / 10), Some (1 / 2)] \<and>
   \<not> sorted (written_bests (trace (snd (pytorch_train_impl env_low 1 1 True True
       (snd (pytorch_train_impl env_high 1 1 True False fresh_world))))))"
  by (simp add: run_high_impl rerun_low_scratch)

text \<open>
  Claim C4, amended. From an output location with no write yet, a first run (with either
  value of \<^verbatim>\<open>start_from_scratch\<close>) followed by any number of restarts with
  \<^verbatim>\<open>start_from_scratch = False\<close>, each with its own data, bounds and patience, each starting
  where the run before returned or raised, writes a sequence of \<^verbatim>\<open>best_dev_metric\<close> values
  that never decreases.
\<close>

theorem written_bests_nondecreasing:
  assumes "trace w0 = []"
  shows "sorted (written_bests (trace (resumed_runs rs
           (snd (pytorch_train_impl env max_epoch patience use_progress_bar start_from_scratch w0)))))"
proof -
  have "history_ok w0" using assms by (simp add: history_ok_def)
  then have "history_ok (snd (pytorch_train_impl env max_epoch patience use_progress_bar start_from_scratch w0))"
    using pytorch_train_impl_history assms by simp
  then have "history_ok (resumed_runs rs
           (snd (pytorch_train_impl env max_epoch patience use_progress_bar start_from_scratch w0)))"
    by (rule resumed_runs_history)
  then show ?thesis by (simp add: history_ok_def)
qed


lemma resumed_history_example:
  "written_bests (trace (resumed_runs [(env_improving, 3, 5, True)]
       (snd (pytorch_train_impl env_low 1 1 True False fresh_world)))) =
     [Some (1 / 2), Some (3 / 5), Some (3 / 5)]"
  by (simp add: run_eval env_low_def env_improving_def)

theorem written_bests_nondecreasing_witness:
  "trace fresh_world = [] \<and>
   written_bests (trace (resumed_runs [(env_improving, 3, 5, True)]
       (snd (pytorch_train_impl env_low 1 1 True False fresh_world)))) =
     [Some (1 / 2), Some (3 / 5), Some (3 / 5)] \<and>
   sorted [Some (1 / 2), Some (3 / 5), Some (3 / 5 :: rat)]"
proof -
  have t: "trace fresh_world = []" by (simp add: fresh_world_def)
  show ?thesis
    using written_bests_nondecreasing [OF t, of "[(env_improving, 3, 5, True)]" env_low 1 1 True False]
      t resumed_history_example
    by simp
qed

subsection \<open>A saved model without its state record\<close>





end
